theory Spec2Isabelle
  imports Main "HOL-Library.Multiset" "HOL-Library.Product_Lexorder" "HOL-Library.AList"
begin

section \<open>JavaScript values and the environment of the services\<close>

text \<open>
  The services of claude-relay-service are JavaScript classes over a Redis store. Values
  whose dynamic type the code tests (\<open>=== true\<close>, \<open>=== 'true'\<close>, \<open>|| []\<close>,
  \<open>!= null\<close>) are modelled by \<open>jsval\<close>; fields that are only ever read as strings
  are \<open>string\<close>, with the empty string standing for a missing (\<open>undefined\<close>) field:
  both are falsy and both differ from every non-empty literal the code compares with.
  Numbers are the integers (token counts, priorities, millisecond timestamps).
\<close>

datatype jsval = JUndefined | JNull | JBool bool | JNum int | JStr string | JArr "string list"

fun truthy :: "jsval \<Rightarrow> bool" where
  "truthy JUndefined = False"
| "truthy JNull = False"
| "truthy (JBool b) = b"
| "truthy (JNum n) = (n \<noteq> 0)"
| "truthy (JStr s) = (s \<noteq> [])"
| "truthy (JArr xs) = True"

text \<open>\<open>supportedModels\<close> of an account: absent, an array (old format) or an object
  mapping client-facing model ids to upstream ids (new format).\<close>

datatype models = ModelsUnset | ModelList "string list" | ModelMap "(string \<times> string) list"

text \<open>An upstream account as the account services return it. Claude OAuth and OpenAI
  accounts are Redis hashes (\<open>isActive\<close> is the string \<open>'true'\<close>); Claude Console
  accounts come back with a boolean \<open>isActive\<close>.\<close>

record account =
  acc_id :: string
  acc_name :: string
  isActive :: jsval
  status :: string
  acc_accountType :: string
  schedulable :: jsval
  acc_priority :: string
  acc_lastUsedAt :: string
  rateLimitStatus :: string
  rateLimitedAt :: string
  supportedModels :: models
  refreshToken :: string

text \<open>
  What the code takes from the language, from Node and from modules of the repository
  outside the four files verified here, as parameters:
  \<^item> \<open>parseInt\<close> and \<open>dateParse\<close> (\<open>new Date(s).getTime()\<close>), \<open>None\<close> for \<open>NaN\<close>;
  \<^item> \<open>sha256hex\<close> (\<open>crypto.createHash('sha256').update(s).digest('hex')\<close>),
    \<open>json_stringify\<close> and \<open>json_parse\<close> (\<open>None\<close> when it throws);
  \<^item> the configuration: \<open>apiKeyPrefix\<close>, \<open>encryptionKey\<close>, \<open>defaultTokenLimit\<close>;
  \<^item> \<open>isTokenExpired\<close> of openaiAccountService, \<open>isModelSupported\<close> of
    claudeConsoleAccountService and \<open>calculateCost\<close> of CostCalculator (its
    \<open>costs.total\<close>, in the price table's smallest unit; \<open>None\<close> when it throws).
\<close>

record env =
  parseInt :: "string \<Rightarrow> int option"
  dateParse :: "string \<Rightarrow> int option"
  sha256hex :: "string \<Rightarrow> string"
  json_stringify :: "jsval \<Rightarrow> string"
  json_parse :: "string \<Rightarrow> jsval option"
  apiKeyPrefix :: string
  encryptionKey :: string
  defaultTokenLimit :: jsval
  isTokenExpired :: "account \<Rightarrow> bool"
  isModelSupported :: "(string \<times> string) list \<Rightarrow> string \<Rightarrow> bool"
  calculateCost :: "int \<Rightarrow> int \<Rightarrow> int \<Rightarrow> int \<Rightarrow> string \<Rightarrow> int option"

section \<open>The store behind the schedulers\<close>

text \<open>The pair a scheduler returns and a session mapping holds.\<close>

record account_ref =
  accountId :: string
  accountType :: string

text \<open>An account prepared for ranking: \<open>{...account, accountId, accountType,
  priority: parseInt(account.priority) || 50, lastUsedAt: account.lastUsedAt || '0'}\<close>.\<close>

record candidate = account_ref +
  priority :: int
  lastUsedAt :: string
  name :: string

record account_group =
  group_name :: string
  platform :: string
  members :: "string list"

text \<open>A Redis string key: its value and the instant (ms) at which it expires. The value
  of a session mapping is the JSON of \<open>{accountId, accountType}\<close>; anything else under
  the key does not parse.\<close>

datatype payload = MappingJson account_ref | Unparsable string

record redis_entry =
  entry_value :: payload
  entry_expiresAt :: int

datatype store_call =
    GetClaudeAccount string | GetAllClaudeAccounts | ClaudeIsRateLimited string
  | ConsoleGetAccount string | ConsoleGetAllAccounts | ConsoleIsRateLimited string
  | OpenAIGetAccount string | OpenAIGetAllAccounts
  | GetGroup string | GetGroupMembers string
  | RedisGet string | RedisSetex string | RedisDel string

text \<open>
  The state the schedulers read and write. The account services, the group service and
  the Redis client are modules of their own: the store lists what they hold,
  \<open>claudeLimited\<close> and \<open>consoleLimited\<close> are the answers of the two Claude services'
  \<open>isAccountRateLimited\<close>, and \<open>failing\<close> says which calls throw.
\<close>

record store =
  claudeAccounts :: "account list"
  consoleAccounts :: "account list"
  openaiAccounts :: "account list"
  claudeLimited :: "string \<Rightarrow> bool"
  consoleLimited :: "string \<Rightarrow> bool"
  groups :: "string \<rightharpoonup> account_group"
  redis :: "string \<rightharpoonup> redis_entry"
  failing :: "store_call \<Rightarrow> bool"

datatype sched_error =
    StoreFailure store_call
  | NoAvailableAccounts string
  | GroupNotFound string
  | GroupWrongPlatform string
  | GroupHasNoMembers string
  | NoAvailableInGroup string

definition call :: "store \<Rightarrow> store_call \<Rightarrow> 'a \<Rightarrow> sched_error + 'a" where
  "call s c v = (if failing s c then Inl (StoreFailure c) else Inr v)"

definition findAccount :: "account list \<Rightarrow> string \<Rightarrow> account option" where
  "findAccount accounts i = find (\<lambda>a. acc_id a = i) accounts"

definition openai_getAccount :: "store \<Rightarrow> string \<Rightarrow> sched_error + account option" where
  "openai_getAccount s i = call s (OpenAIGetAccount i) (findAccount (openaiAccounts s) i)"

section \<open>Ranking: \<open>_sortAccountsByPriority\<close>\<close>

text \<open>
  The comparator of both schedulers. \<open>new Date(a.lastUsedAt || 0).getTime()\<close> is 0 for
  an empty \<open>lastUsedAt\<close> and \<open>NaN\<close> for a string that is no date; a difference
  with \<open>NaN\<close> is \<open>NaN\<close> (\<open>None\<close>).
\<close>

definition lastUsedTime :: "env \<Rightarrow> candidate \<Rightarrow> int option" where
  "lastUsedTime E a = (if lastUsedAt a = [] then Some 0 else dateParse E (lastUsedAt a))"

definition compareAccounts :: "env \<Rightarrow> candidate \<Rightarrow> candidate \<Rightarrow> int option" where
  "compareAccounts E a b =
     (if priority a \<noteq> priority b then Some (priority a - priority b)
      else (case (lastUsedTime E a, lastUsedTime E b) of
              (Some aLastUsed, Some bLastUsed) \<Rightarrow> Some (aLastUsed - bLastUsed)
            | _ \<Rightarrow> None))"

text \<open>
  \<open>Array.prototype.sort\<close> is a stable sort: \<open>a\<close> goes behind \<open>b\<close> only when the
  comparator is positive, and a \<open>NaN\<close> result counts as 0. It is modelled by the
  stable insertion sort; for a comparator that is a total preorder every stable sort
  returns the same list.
\<close>

definition sortsAfter :: "env \<Rightarrow> candidate \<Rightarrow> candidate \<Rightarrow> bool" where
  "sortsAfter E a b = (case compareAccounts E a b of Some v \<Rightarrow> 0 < v | None \<Rightarrow> False)"

fun insertSorted :: "env \<Rightarrow> candidate \<Rightarrow> candidate list \<Rightarrow> candidate list" where
  "insertSorted E a [] = [a]"
| "insertSorted E a (b # bs) =
     (if sortsAfter E a b then b # insertSorted E a bs else a # b # bs)"

fun sortAccountsByPriority :: "env \<Rightarrow> candidate list \<Rightarrow> candidate list" where
  "sortAccountsByPriority E [] = []"
| "sortAccountsByPriority E (a # as) = insertSorted E a (sortAccountsByPriority E as)"

text \<open>The key the comparator orders by, for candidates whose \<open>lastUsedAt\<close> is a date.\<close>

definition validDate :: "env \<Rightarrow> candidate \<Rightarrow> bool" where
  "validDate E a = (lastUsedTime E a \<noteq> None)"

definition rankKey :: "env \<Rightarrow> candidate \<Rightarrow> int \<times> int" where
  "rankKey E a = (priority a, (case lastUsedTime E a of Some t \<Rightarrow> t | None \<Rightarrow> 0))"

section \<open>The OpenAI scheduler's rate-limit check\<close>

text \<open>
  \<open>isAccountRateLimited\<close> of unifiedOpenAIScheduler: a missing account is not limited,
  an account is limited while \<open>now < limitedAt + 60 * 60 * 1000\<close>, and a failing read is
  caught and answered \<open>false\<close>. A comparison with \<open>NaN\<close> is false.
\<close>

definition openai_isAccountRateLimited :: "env \<Rightarrow> int \<Rightarrow> store \<Rightarrow> string \<Rightarrow> bool" where
  "openai_isAccountRateLimited E now s i =
     (case openai_getAccount s i of
        Inl e \<Rightarrow> False
      | Inr None \<Rightarrow> False
      | Inr (Some account) \<Rightarrow>
          (if rateLimitStatus account = ''limited'' \<and> rateLimitedAt account \<noteq> [] then
             (case dateParse E (rateLimitedAt account) of
                None \<Rightarrow> False
              | Some limitedAt \<Rightarrow> now < limitedAt + 60 * 60 * 1000)
           else False))"

section \<open>Session mappings\<close>

text \<open>
  The Redis client's \<open>get\<close>, \<open>setex\<close> and \<open>del\<close> on a string key: a key is
  visible until its expiry instant, \<open>setex\<close> replaces value and expiry, \<open>del\<close>
  removes the key.
\<close>

definition andThen :: "('e + 'a) \<Rightarrow> ('a \<Rightarrow> 'e + 'b) \<Rightarrow> 'e + 'b" where
  "andThen m f = (case m of Inl e \<Rightarrow> Inl e | Inr x \<Rightarrow> f x)"

definition redis_get :: "int \<Rightarrow> store \<Rightarrow> string \<Rightarrow> sched_error + payload option" where
  "redis_get now s k =
     call s (RedisGet k)
       (case redis s k of
          None \<Rightarrow> None
        | Some e \<Rightarrow> if now < entry_expiresAt e then Some (entry_value e) else None)"

definition redis_setex :: "int \<Rightarrow> store \<Rightarrow> string \<Rightarrow> int \<Rightarrow> payload \<Rightarrow> sched_error + store" where
  "redis_setex now s k seconds v =
     call s (RedisSetex k)
       (s\<lparr>redis := (redis s)(k \<mapsto> \<lparr>entry_value = v, entry_expiresAt = now + seconds * 1000\<rparr>)\<rparr>)"

definition redis_del :: "store \<Rightarrow> string \<Rightarrow> sched_error + store" where
  "redis_del s k = call s (RedisDel k) (s\<lparr>redis := (redis s)(k := None)\<rparr>)"

definition CLAUDE_SESSION_MAPPING_PREFIX :: string where
  "CLAUDE_SESSION_MAPPING_PREFIX = ''unified_claude_session_mapping:''"

definition OPENAI_SESSION_MAPPING_PREFIX :: string where
  "OPENAI_SESSION_MAPPING_PREFIX = ''unified_openai_session_mapping:''"

text \<open>\<open>_getSessionMapping\<close>, \<open>_setSessionMapping\<close> and \<open>_deleteSessionMapping\<close>, the
  same in both schedulers up to the prefix. A value that does not parse reads as
  \<open>null\<close>.\<close>

definition getSessionMapping ::
  "string \<Rightarrow> int \<Rightarrow> store \<Rightarrow> string \<Rightarrow> sched_error + account_ref option" where
  "getSessionMapping prefix now s sessionHash =
     andThen (redis_get now s (prefix @ sessionHash))
       (\<lambda>mappingData. case mappingData of
           None \<Rightarrow> Inr None
         | Some (MappingJson m) \<Rightarrow> Inr (Some m)
         | Some (Unparsable d) \<Rightarrow> Inr None)"

definition setSessionMapping ::
  "string \<Rightarrow> int \<Rightarrow> store \<Rightarrow> string \<Rightarrow> string \<Rightarrow> string \<Rightarrow> sched_error + store" where
  "setSessionMapping prefix now s sessionHash i t =
     redis_setex now s (prefix @ sessionHash) 3600
       (MappingJson \<lparr>accountId = i, accountType = t\<rparr>)"

definition deleteSessionMapping :: "string \<Rightarrow> store \<Rightarrow> string \<Rightarrow> sched_error + store" where
  "deleteSessionMapping prefix s sessionHash = redis_del s (prefix @ sessionHash)"

section \<open>Candidates\<close>

record apiKeyData =
  key_name :: string
  claudeAccountId :: string
  claudeConsoleAccountId :: string
  openaiAccountId :: string

definition toCandidate :: "env \<Rightarrow> string \<Rightarrow> account \<Rightarrow> candidate" where
  "toCandidate E t a =
     \<lparr>accountId = acc_id a, accountType = t,
      priority = (case parseInt E (acc_priority a) of
                    None \<Rightarrow> 50
                  | Some p \<Rightarrow> if p = 0 then 50 else p),
      lastUsedAt = (if acc_lastUsedAt a = [] then ''0'' else acc_lastUsedAt a),
      name = acc_name a\<rparr>"

definition refOf :: "candidate \<Rightarrow> account_ref" where
  "refOf c = \<lparr>accountId = accountId c, accountType = accountType c\<rparr>"

text \<open>The tail of both \<open>selectAccountForApiKey\<close> and of \<open>selectAccountFromGroup\<close>: rank
  the candidates, take the first, and map the session to it when there is a session
  hash. \<open>err\<close> is the error thrown for an empty candidate list.\<close>

definition selectFirst ::
  "env \<Rightarrow> string \<Rightarrow> int \<Rightarrow> sched_error \<Rightarrow> string \<Rightarrow> candidate list \<Rightarrow> store
     \<Rightarrow> (sched_error + account_ref) \<times> store" where
  "selectFirst E prefix now err sessionHash availableAccounts s =
     (if availableAccounts = [] then (Inl err, s)
      else (case sortAccountsByPriority E availableAccounts of
              [] \<Rightarrow> (Inl err, s)
            | selectedAccount # rest \<Rightarrow>
                (if sessionHash \<noteq> [] then
                   (case setSessionMapping prefix now s sessionHash
                           (accountId selectedAccount) (accountType selectedAccount) of
                      Inl e \<Rightarrow> (Inl e, s)
                    | Inr s' \<Rightarrow> (Inr (refOf selectedAccount), s'))
                 else (Inr (refOf selectedAccount), s))))"

section \<open>The Claude scheduler\<close>

definition claude_getAccount :: "store \<Rightarrow> string \<Rightarrow> sched_error + account option" where
  "claude_getAccount s i = call s (GetClaudeAccount i) (findAccount (claudeAccounts s) i)"

definition console_getAccount :: "store \<Rightarrow> string \<Rightarrow> sched_error + account option" where
  "console_getAccount s i = call s (ConsoleGetAccount i) (findAccount (consoleAccounts s) i)"

definition claude_isRateLimited :: "store \<Rightarrow> string \<Rightarrow> sched_error + bool" where
  "claude_isRateLimited s i = call s (ClaudeIsRateLimited i) (claudeLimited s i)"

definition console_isRateLimited :: "store \<Rightarrow> string \<Rightarrow> sched_error + bool" where
  "console_isRateLimited s i = call s (ConsoleIsRateLimited i) (consoleLimited s i)"

text \<open>Lines 16-41 of \<open>selectAccountForApiKey\<close>: the two dedicated bindings, in order.
  \<open>Some\<close> is the early return; \<open>None\<close> falls through to the session and the pool.\<close>

definition claude_boundOfficial :: "store \<Rightarrow> apiKeyData \<Rightarrow> sched_error + account_ref option" where
  "claude_boundOfficial s k =
     (if claudeAccountId k \<noteq> [] then
        andThen (claude_getAccount s (claudeAccountId k))
          (\<lambda>boundAccount. case boundAccount of
              None \<Rightarrow> Inr None
            | Some b \<Rightarrow>
                if isActive b = JStr ''true'' \<and> status b \<noteq> ''error''
                then Inr (Some \<lparr>accountId = claudeAccountId k, accountType = ''claude-official''\<rparr>)
                else Inr None)
      else Inr None)"

definition claude_boundConsole :: "store \<Rightarrow> apiKeyData \<Rightarrow> sched_error + account_ref option" where
  "claude_boundConsole s k =
     (if claudeConsoleAccountId k \<noteq> [] then
        andThen (console_getAccount s (claudeConsoleAccountId k))
          (\<lambda>boundConsoleAccount. case boundConsoleAccount of
              None \<Rightarrow> Inr None
            | Some b \<Rightarrow>
                if isActive b = JBool True \<and> status b = ''active''
                then Inr (Some \<lparr>accountId = claudeConsoleAccountId k, accountType = ''claude-console''\<rparr>)
                else Inr None)
      else Inr None)"

definition claude_dedicated :: "store \<Rightarrow> apiKeyData \<Rightarrow> sched_error + account_ref option" where
  "claude_dedicated s k =
     andThen (claude_boundOfficial s k)
       (\<lambda>r. case r of Some b \<Rightarrow> Inr (Some b) | None \<Rightarrow> claude_boundConsole s k)"

text \<open>\<open>_isAccountAvailable\<close>: every exception is caught and answered \<open>false\<close>.\<close>

definition claude_isAccountAvailable :: "store \<Rightarrow> account_ref \<Rightarrow> bool" where
  "claude_isAccountAvailable s m =
     (if accountType m = ''claude-official'' then
        (case claude_getAccount s (accountId m) of
           Inl e \<Rightarrow> False
         | Inr None \<Rightarrow> False
         | Inr (Some a) \<Rightarrow>
             if isActive a \<noteq> JStr ''true'' \<or> status a = ''error'' then False
             else if schedulable a = JStr ''false'' then False
             else (case claude_isRateLimited s (accountId m) of
                     Inl e \<Rightarrow> False
                   | Inr limited \<Rightarrow> \<not> limited))
      else if accountType m = ''claude-console'' then
        (case console_getAccount s (accountId m) of
           Inl e \<Rightarrow> False
         | Inr None \<Rightarrow> False
         | Inr (Some a) \<Rightarrow>
             if \<not> truthy (isActive a) \<or> status a \<noteq> ''active'' then False
             else if schedulable a = JBool False then False
             else (case console_isRateLimited s (accountId m) of
                     Inl e \<Rightarrow> False
                   | Inr limited \<Rightarrow> \<not> limited))
      else False)"

text \<open>\<open>_getAllAvailableAccounts\<close>: the bound account again (here with its rate limit),
  then the shared pool of official accounts, then the Console accounts.\<close>

definition claude_availableBoundOfficial ::
  "env \<Rightarrow> store \<Rightarrow> apiKeyData \<Rightarrow> sched_error + candidate option" where
  "claude_availableBoundOfficial E s k =
     (if claudeAccountId k \<noteq> [] then
        andThen (claude_getAccount s (claudeAccountId k))
          (\<lambda>boundAccount. case boundAccount of
              None \<Rightarrow> Inr None
            | Some b \<Rightarrow>
                if isActive b = JStr ''true'' \<and> status b \<noteq> ''error'' \<and> status b \<noteq> ''blocked''
                then andThen (claude_isRateLimited s (acc_id b))
                       (\<lambda>isRateLimited.
                          if \<not> isRateLimited then Inr (Some (toCandidate E ''claude-official'' b))
                          else Inr None)
                else Inr None)
      else Inr None)"

definition claude_availableBoundConsole ::
  "env \<Rightarrow> store \<Rightarrow> apiKeyData \<Rightarrow> sched_error + candidate option" where
  "claude_availableBoundConsole E s k =
     (if claudeConsoleAccountId k \<noteq> [] then
        andThen (console_getAccount s (claudeConsoleAccountId k))
          (\<lambda>boundConsoleAccount. case boundConsoleAccount of
              None \<Rightarrow> Inr None
            | Some b \<Rightarrow>
                if isActive b = JBool True \<and> status b = ''active''
                then andThen (console_isRateLimited s (acc_id b))
                       (\<lambda>isRateLimited.
                          if \<not> isRateLimited then Inr (Some (toCandidate E ''claude-console'' b))
                          else Inr None)
                else Inr None)
      else Inr None)"

fun claude_officialPool :: "env \<Rightarrow> store \<Rightarrow> account list \<Rightarrow> sched_error + candidate list" where
  "claude_officialPool E s [] = Inr []"
| "claude_officialPool E s (a # as) =
     (if isActive a = JStr ''true'' \<and> status a \<noteq> ''error'' \<and> status a \<noteq> ''blocked'' \<and>
         (acc_accountType a = ''shared'' \<or> acc_accountType a = []) \<and>
         schedulable a \<noteq> JStr ''false''
      then andThen (claude_isRateLimited s (acc_id a))
             (\<lambda>isRateLimited.
                andThen (claude_officialPool E s as)
                  (\<lambda>rest. Inr (if \<not> isRateLimited
                                then toCandidate E ''claude-official'' a # rest else rest)))
      else claude_officialPool E s as)"

definition console_modelExcluded :: "env \<Rightarrow> string \<Rightarrow> account \<Rightarrow> bool" where
  "console_modelExcluded E requestedModel a =
     (requestedModel \<noteq> [] \<and>
      (case supportedModels a of
         ModelsUnset \<Rightarrow> False
       | ModelList l \<Rightarrow> l \<noteq> [] \<and> requestedModel \<notin> set l
       | ModelMap m \<Rightarrow> m \<noteq> [] \<and> \<not> isModelSupported E m requestedModel))"

fun claude_consolePool ::
  "env \<Rightarrow> string \<Rightarrow> store \<Rightarrow> account list \<Rightarrow> sched_error + candidate list" where
  "claude_consolePool E requestedModel s [] = Inr []"
| "claude_consolePool E requestedModel s (a # as) =
     (if isActive a = JBool True \<and> status a = ''active'' \<and> acc_accountType a = ''shared'' \<and>
         schedulable a \<noteq> JBool False
      then (if console_modelExcluded E requestedModel a
            then claude_consolePool E requestedModel s as
            else andThen (console_isRateLimited s (acc_id a))
                   (\<lambda>isRateLimited.
                      andThen (claude_consolePool E requestedModel s as)
                        (\<lambda>rest. Inr (if \<not> isRateLimited
                                      then toCandidate E ''claude-console'' a # rest else rest))))
      else claude_consolePool E requestedModel s as)"

definition claude_getAllAvailableAccounts ::
  "env \<Rightarrow> apiKeyData \<Rightarrow> string \<Rightarrow> store \<Rightarrow> sched_error + candidate list" where
  "claude_getAllAvailableAccounts E k requestedModel s =
     andThen (claude_availableBoundOfficial E s k)
       (\<lambda>b1. case b1 of
          Some c \<Rightarrow> Inr [c]
        | None \<Rightarrow>
            andThen (claude_availableBoundConsole E s k)
              (\<lambda>b2. case b2 of
                 Some c \<Rightarrow> Inr [c]
               | None \<Rightarrow>
                   andThen (call s GetAllClaudeAccounts (claudeAccounts s))
                     (\<lambda>claudeAccounts.
                        andThen (claude_officialPool E s claudeAccounts)
                          (\<lambda>official.
                             andThen (call s ConsoleGetAllAccounts (consoleAccounts s))
                               (\<lambda>consoleAccounts.
                                  andThen (claude_consolePool E requestedModel s consoleAccounts)
                                    (\<lambda>console. Inr (official @ console)))))))"

text \<open>Lines 44-88: the sticky session, then the pool.\<close>

definition claude_pool ::
  "env \<Rightarrow> int \<Rightarrow> apiKeyData \<Rightarrow> string \<Rightarrow> string \<Rightarrow> store
     \<Rightarrow> (sched_error + account_ref) \<times> store" where
  "claude_pool E now k sessionHash requestedModel s =
     (case claude_getAllAvailableAccounts E k requestedModel s of
        Inl e \<Rightarrow> (Inl e, s)
      | Inr availableAccounts \<Rightarrow>
          selectFirst E CLAUDE_SESSION_MAPPING_PREFIX now (NoAvailableAccounts requestedModel)
            sessionHash availableAccounts s)"

definition claude_sticky ::
  "env \<Rightarrow> int \<Rightarrow> apiKeyData \<Rightarrow> string \<Rightarrow> string \<Rightarrow> store
     \<Rightarrow> (sched_error + account_ref) \<times> store" where
  "claude_sticky E now k sessionHash requestedModel s =
     (if sessionHash \<noteq> [] then
        (case getSessionMapping CLAUDE_SESSION_MAPPING_PREFIX now s sessionHash of
           Inl e \<Rightarrow> (Inl e, s)
         | Inr None \<Rightarrow> claude_pool E now k sessionHash requestedModel s
         | Inr (Some mappedAccount) \<Rightarrow>
             if claude_isAccountAvailable s mappedAccount then (Inr mappedAccount, s)
             else (case deleteSessionMapping CLAUDE_SESSION_MAPPING_PREFIX s sessionHash of
                     Inl e \<Rightarrow> (Inl e, s)
                   | Inr s' \<Rightarrow> claude_pool E now k sessionHash requestedModel s'))
      else claude_pool E now k sessionHash requestedModel s)"

definition claude_selectAccountForApiKey ::
  "env \<Rightarrow> int \<Rightarrow> apiKeyData \<Rightarrow> string \<Rightarrow> string \<Rightarrow> store
     \<Rightarrow> (sched_error + account_ref) \<times> store" where
  "claude_selectAccountForApiKey E now k sessionHash requestedModel s =
     (case claude_dedicated s k of
        Inl e \<Rightarrow> (Inl e, s)
      | Inr (Some bound) \<Rightarrow> (Inr bound, s)
      | Inr None \<Rightarrow> claude_sticky E now k sessionHash requestedModel s)"

section \<open>The OpenAI scheduler\<close>

definition isSchedulable :: "jsval \<Rightarrow> bool" where
  "isSchedulable v =
     (if v = JUndefined \<or> v = JNull then True else v \<noteq> JBool False \<and> v \<noteq> JStr ''false'')"

text \<open>\<open>requestedModel && account.supportedModels && account.supportedModels.length > 0\<close>
  and not \<open>includes(requestedModel)\<close>: only a non-empty array can exclude a model (an
  object has no \<open>length\<close>).\<close>

definition openai_modelExcluded :: "string \<Rightarrow> account \<Rightarrow> bool" where
  "openai_modelExcluded requestedModel a =
     (requestedModel \<noteq> [] \<and>
      (case supportedModels a of
         ModelList l \<Rightarrow> l \<noteq> [] \<and> requestedModel \<notin> set l
       | _ \<Rightarrow> False))"

definition openai_isAccountAvailable :: "env \<Rightarrow> int \<Rightarrow> store \<Rightarrow> account_ref \<Rightarrow> bool" where
  "openai_isAccountAvailable E now s m =
     (if accountType m = ''openai'' then
        (case openai_getAccount s (accountId m) of
           Inl e \<Rightarrow> False
         | Inr None \<Rightarrow> False
         | Inr (Some a) \<Rightarrow>
             if isActive a \<noteq> JStr ''true'' \<or> status a = ''error'' then False
             else if \<not> isSchedulable (schedulable a) then False
             else \<not> openai_isAccountRateLimited E now s (accountId m))
      else False)"

text \<open>The loop body shared by the pool and by the members of a group: token expiry,
  model support, rate limit.\<close>

definition openai_admits :: "env \<Rightarrow> int \<Rightarrow> string \<Rightarrow> store \<Rightarrow> account \<Rightarrow> bool" where
  "openai_admits E now requestedModel s a =
     (if isTokenExpired E a \<and> refreshToken a = [] then False
      else if openai_modelExcluded requestedModel a then False
      else \<not> openai_isAccountRateLimited E now s (acc_id a))"

fun openai_sharedPool :: "env \<Rightarrow> int \<Rightarrow> string \<Rightarrow> store \<Rightarrow> account list \<Rightarrow> candidate list" where
  "openai_sharedPool E now requestedModel s [] = []"
| "openai_sharedPool E now requestedModel s (a # as) =
     (if isActive a = JStr ''true'' \<and> status a \<noteq> ''error'' \<and>
         (acc_accountType a = ''shared'' \<or> acc_accountType a = []) \<and>
         isSchedulable (schedulable a) \<and> openai_admits E now requestedModel s a
      then toCandidate E ''openai'' a # openai_sharedPool E now requestedModel s as
      else openai_sharedPool E now requestedModel s as)"

text \<open>\<open>_getAllAvailableAccounts\<close>: \<open>Some\<close> is the early return for the bound account
  (the empty list when it does not support the model), \<open>None\<close> goes on to the pool.\<close>

definition openai_availableBound ::
  "env \<Rightarrow> int \<Rightarrow> apiKeyData \<Rightarrow> string \<Rightarrow> store \<Rightarrow> sched_error + candidate list option" where
  "openai_availableBound E now k requestedModel s =
     (if openaiAccountId k \<noteq> [] then
        andThen (openai_getAccount s (openaiAccountId k))
          (\<lambda>boundAccount. case boundAccount of
              None \<Rightarrow> Inr None
            | Some b \<Rightarrow>
                if isActive b = JStr ''true'' \<and> status b \<noteq> ''error'' then
                  (if \<not> openai_isAccountRateLimited E now s (acc_id b) then
                     (if openai_modelExcluded requestedModel b then Inr (Some [])
                      else Inr (Some [toCandidate E ''openai'' b]))
                   else Inr None)
                else Inr None)
      else Inr None)"

definition openai_getAllAvailableAccounts ::
  "env \<Rightarrow> int \<Rightarrow> apiKeyData \<Rightarrow> string \<Rightarrow> store \<Rightarrow> sched_error + candidate list" where
  "openai_getAllAvailableAccounts E now k requestedModel s =
     andThen (openai_availableBound E now k requestedModel s)
       (\<lambda>b. case b of
          Some cs \<Rightarrow> Inr cs
        | None \<Rightarrow>
            andThen (call s OpenAIGetAllAccounts (openaiAccounts s))
              (\<lambda>openaiAccounts. Inr (openai_sharedPool E now requestedModel s openaiAccounts)))"

text \<open>\<open>selectAccountFromGroup\<close>. Of accountGroupService, \<open>getGroup\<close> reads
  \<open>groups\<close> and \<open>getGroupMembers\<close> the members of the group, none for an unknown
  group.\<close>

definition getGroup :: "store \<Rightarrow> string \<Rightarrow> sched_error + account_group option" where
  "getGroup s g = call s (GetGroup g) (groups s g)"

definition getGroupMembers :: "store \<Rightarrow> string \<Rightarrow> sched_error + string list" where
  "getGroupMembers s g =
     call s (GetGroupMembers g) (case groups s g of None \<Rightarrow> [] | Some grp \<Rightarrow> members grp)"

fun openai_groupPool ::
  "env \<Rightarrow> int \<Rightarrow> string \<Rightarrow> store \<Rightarrow> string list \<Rightarrow> sched_error + candidate list" where
  "openai_groupPool E now requestedModel s [] = Inr []"
| "openai_groupPool E now requestedModel s (memberId # memberIds) =
     andThen (openai_getAccount s memberId)
       (\<lambda>account.
          andThen (openai_groupPool E now requestedModel s memberIds)
            (\<lambda>rest. Inr (case account of
                 None \<Rightarrow> rest
               | Some a \<Rightarrow>
                   if isActive a = JStr ''true'' \<and> status a \<noteq> ''error'' \<and>
                      isSchedulable (schedulable a) \<and> openai_admits E now requestedModel s a
                   then toCandidate E ''openai'' a # rest else rest)))"

definition openai_groupSelect ::
  "env \<Rightarrow> int \<Rightarrow> account_group \<Rightarrow> string \<Rightarrow> string \<Rightarrow> string \<Rightarrow> store
     \<Rightarrow> (sched_error + account_ref) \<times> store" where
  "openai_groupSelect E now grp groupId sessionHash requestedModel s =
     (case getGroupMembers s groupId of
        Inl e \<Rightarrow> (Inl e, s)
      | Inr memberIds \<Rightarrow>
          if memberIds = [] then (Inl (GroupHasNoMembers (group_name grp)), s)
          else (case openai_groupPool E now requestedModel s memberIds of
                  Inl e \<Rightarrow> (Inl e, s)
                | Inr availableAccounts \<Rightarrow>
                    selectFirst E OPENAI_SESSION_MAPPING_PREFIX now
                      (NoAvailableInGroup (group_name grp)) sessionHash availableAccounts s))"

definition openai_groupSticky ::
  "env \<Rightarrow> int \<Rightarrow> account_group \<Rightarrow> string \<Rightarrow> string \<Rightarrow> string \<Rightarrow> store
     \<Rightarrow> (sched_error + account_ref) \<times> store" where
  "openai_groupSticky E now grp groupId sessionHash requestedModel s =
     (if sessionHash \<noteq> [] then
        (case getSessionMapping OPENAI_SESSION_MAPPING_PREFIX now s sessionHash of
           Inl e \<Rightarrow> (Inl e, s)
         | Inr None \<Rightarrow> openai_groupSelect E now grp groupId sessionHash requestedModel s
         | Inr (Some mappedAccount) \<Rightarrow>
             (case getGroupMembers s groupId of
                Inl e \<Rightarrow> (Inl e, s)
              | Inr ms \<Rightarrow>
                  if accountId mappedAccount \<in> set ms \<and>
                     openai_isAccountAvailable E now s mappedAccount
                  then (Inr mappedAccount, s)
                  else (case deleteSessionMapping OPENAI_SESSION_MAPPING_PREFIX s sessionHash of
                          Inl e \<Rightarrow> (Inl e, s)
                        | Inr s' \<Rightarrow>
                            openai_groupSelect E now grp groupId sessionHash requestedModel s')))
      else openai_groupSelect E now grp groupId sessionHash requestedModel s)"

definition selectAccountFromGroup ::
  "env \<Rightarrow> int \<Rightarrow> string \<Rightarrow> string \<Rightarrow> string \<Rightarrow> store
     \<Rightarrow> (sched_error + account_ref) \<times> store" where
  "selectAccountFromGroup E now groupId sessionHash requestedModel s =
     (case getGroup s groupId of
        Inl e \<Rightarrow> (Inl e, s)
      | Inr None \<Rightarrow> (Inl (GroupNotFound groupId), s)
      | Inr (Some grp) \<Rightarrow>
          if platform grp \<noteq> ''openai'' then (Inl (GroupWrongPlatform (group_name grp)), s)
          else openai_groupSticky E now grp groupId sessionHash requestedModel s)"

text \<open>Lines 36-50 of \<open>selectAccountForApiKey\<close>: the individual binding.\<close>

definition openai_dedicated :: "store \<Rightarrow> apiKeyData \<Rightarrow> sched_error + account_ref option" where
  "openai_dedicated s k =
     andThen (openai_getAccount s (openaiAccountId k))
       (\<lambda>boundAccount. case boundAccount of
           None \<Rightarrow> Inr None
         | Some b \<Rightarrow>
             if isActive b = JStr ''true'' \<and> status b \<noteq> ''error''
             then Inr (Some \<lparr>accountId = openaiAccountId k, accountType = ''openai''\<rparr>)
             else Inr None)"

definition openai_pool ::
  "env \<Rightarrow> int \<Rightarrow> apiKeyData \<Rightarrow> string \<Rightarrow> string \<Rightarrow> store
     \<Rightarrow> (sched_error + account_ref) \<times> store" where
  "openai_pool E now k sessionHash requestedModel s =
     (case openai_getAllAvailableAccounts E now k requestedModel s of
        Inl e \<Rightarrow> (Inl e, s)
      | Inr availableAccounts \<Rightarrow>
          selectFirst E OPENAI_SESSION_MAPPING_PREFIX now (NoAvailableAccounts requestedModel)
            sessionHash availableAccounts s)"

definition openai_sticky ::
  "env \<Rightarrow> int \<Rightarrow> apiKeyData \<Rightarrow> string \<Rightarrow> string \<Rightarrow> store
     \<Rightarrow> (sched_error + account_ref) \<times> store" where
  "openai_sticky E now k sessionHash requestedModel s =
     (if sessionHash \<noteq> [] then
        (case getSessionMapping OPENAI_SESSION_MAPPING_PREFIX now s sessionHash of
           Inl e \<Rightarrow> (Inl e, s)
         | Inr None \<Rightarrow> openai_pool E now k sessionHash requestedModel s
         | Inr (Some mappedAccount) \<Rightarrow>
             if openai_isAccountAvailable E now s mappedAccount then (Inr mappedAccount, s)
             else (case deleteSessionMapping OPENAI_SESSION_MAPPING_PREFIX s sessionHash of
                     Inl e \<Rightarrow> (Inl e, s)
                   | Inr s' \<Rightarrow> openai_pool E now k sessionHash requestedModel s'))
      else openai_pool E now k sessionHash requestedModel s)"

text \<open>\<open>'group:'.length\<close> is 6; \<open>replace('group:', '')\<close> on a string that starts with
  \<open>group:\<close> drops that prefix.\<close>

definition openai_selectAccountForApiKey ::
  "env \<Rightarrow> int \<Rightarrow> apiKeyData \<Rightarrow> string \<Rightarrow> string \<Rightarrow> store
     \<Rightarrow> (sched_error + account_ref) \<times> store" where
  "openai_selectAccountForApiKey E now k sessionHash requestedModel s =
     (if openaiAccountId k \<noteq> [] then
        (if take 6 (openaiAccountId k) = ''group:'' then
           selectAccountFromGroup E now (drop 6 (openaiAccountId k)) sessionHash requestedModel s
         else (case openai_dedicated s k of
                 Inl e \<Rightarrow> (Inl e, s)
               | Inr (Some bound) \<Rightarrow> (Inr bound, s)
               | Inr None \<Rightarrow> openai_sticky E now k sessionHash requestedModel s))
      else openai_sticky E now k sessionHash requestedModel s)"

section \<open>API keys: the key store\<close>

text \<open>A key record is a flat object of string fields (a Redis hash), in insertion
  order. A missing field reads as the empty string.\<close>

type_synonym fields = "(string \<times> string) list"

definition field :: "fields \<Rightarrow> string \<Rightarrow> string" where
  "field d k = (case map_of d k of None \<Rightarrow> [] | Some v \<Rightarrow> v)"

record usage =
  requests :: int
  inputTokens :: int
  outputTokens :: int
  cacheCreateTokens :: int
  cacheReadTokens :: int
  allTokens :: int

datatype counter =
    KeyTotal string | KeyDaily string string | KeyMonthly string string
  | KeyModelDaily string string string | KeyModelMonthly string string string
  | AccountTotal string | AccountDaily string string | AccountMonthly string string

datatype key_call =
    SetApiKey string | GetApiKey string | FindApiKeyByHash string
  | GetUsageStats string | GetDailyCost string
  | IncrementTokenUsage string | IncrementDailyCost string | IncrementAccountUsage string

datatype key_error = KeyStoreFailure key_call | ApiKeyNotFound | CostCalculatorFailure

text \<open>The time of a call: \<open>Date.now()\<close>, \<open>new Date().toISOString()\<close> and the names of
  the current daily and monthly buckets.\<close>

record clock =
  clock_ms :: int
  clock_iso :: string
  clock_day :: string
  clock_month :: string

record key_store =
  apikeys :: "string \<rightharpoonup> fields"
  hash_map :: "string \<rightharpoonup> string"
  counters :: "counter \<Rightarrow> usage"
  dailyCost :: "string \<times> string \<Rightarrow> int"
  key_failing :: "key_call \<Rightarrow> bool"

definition kcall :: "key_store \<Rightarrow> key_call \<Rightarrow> 'a \<Rightarrow> key_error + 'a" where
  "kcall s c v = (if key_failing s c then Inl (KeyStoreFailure c) else Inr v)"

text \<open>Modelled from the spec: \<open>setApiKey\<close> of models/redis.js, a module outside the
  files verified here (section 4.7, \<open>putApiKey(id, record)\<close>; section 3, the hashed
  secret is indexed). It puts the record under its id and, when a hash is passed, points
  the hash index at the id.\<close>

definition setApiKey :: "key_store \<Rightarrow> string \<Rightarrow> fields \<Rightarrow> string option \<Rightarrow> key_error + key_store" where
  "setApiKey s keyId keyData hashedKey =
     kcall s (SetApiKey keyId)
       (s\<lparr>apikeys := (apikeys s)(keyId \<mapsto> keyData),
          hash_map := (case hashedKey of
                         None \<Rightarrow> hash_map s
                       | Some h \<Rightarrow> (hash_map s)(h \<mapsto> keyId))\<rparr>)"

text \<open>Modelled from the spec: \<open>getApiKey\<close> of models/redis.js (section 4.7,
  \<open>getApiKey(id)\<close>). It returns the record, the empty object when there is none.\<close>

definition getApiKey :: "key_store \<Rightarrow> string \<Rightarrow> key_error + fields" where
  "getApiKey s keyId =
     kcall s (GetApiKey keyId) (case apikeys s keyId of None \<Rightarrow> [] | Some d \<Rightarrow> d)"

text \<open>Modelled from the spec: \<open>findApiKeyByHash\<close> of models/redis.js (section 4.2, step
  2: look the key up by hash via the index; section 4.7). It follows the index to a
  non-empty record.\<close>

definition findApiKeyByHash :: "key_store \<Rightarrow> string \<Rightarrow> key_error + fields option" where
  "findApiKeyByHash s h =
     kcall s (FindApiKeyByHash h)
       (case hash_map s h of
          None \<Rightarrow> None
        | Some keyId \<Rightarrow>
            (case apikeys s keyId of
               None \<Rightarrow> None
             | Some d \<Rightarrow> if d = [] then None else Some d))"

text \<open>One recorded request added to a counter, and to each counter of a list.\<close>

definition addUsage :: "usage \<Rightarrow> int \<Rightarrow> int \<Rightarrow> int \<Rightarrow> int \<Rightarrow> int \<Rightarrow> usage" where
  "addUsage u totalTokens i out cc cr =
     \<lparr>requests = requests u + 1, inputTokens = inputTokens u + i,
      outputTokens = outputTokens u + out, cacheCreateTokens = cacheCreateTokens u + cc,
      cacheReadTokens = cacheReadTokens u + cr, allTokens = allTokens u + totalTokens\<rparr>"

definition bumpCounters ::
  "(counter \<Rightarrow> usage) \<Rightarrow> counter list \<Rightarrow> int \<Rightarrow> int \<Rightarrow> int \<Rightarrow> int \<Rightarrow> int \<Rightarrow> counter \<Rightarrow> usage" where
  "bumpCounters f cs totalTokens i out cc cr =
     (\<lambda>k. if k \<in> set cs then addUsage (f k) totalTokens i out cc cr else f k)"

text \<open>The counters of a key for a model (section 3: per-key lifetime, daily and monthly;
  per-key and model daily and monthly) and those of an account (lifetime, daily,
  monthly).\<close>

definition keyCounters :: "clock \<Rightarrow> string \<Rightarrow> string \<Rightarrow> counter list" where
  "keyCounters c keyId model =
     [KeyTotal keyId, KeyDaily keyId (clock_day c), KeyMonthly keyId (clock_month c),
      KeyModelDaily keyId model (clock_day c), KeyModelMonthly keyId model (clock_month c)]"

definition accountCounters :: "clock \<Rightarrow> string \<Rightarrow> counter list" where
  "accountCounters c a =
     [AccountTotal a, AccountDaily a (clock_day c), AccountMonthly a (clock_month c)]"

text \<open>Modelled from the spec: \<open>incrementTokenUsage\<close> of models/redis.js (section 4.6,
  step 2). It adds one request and the token counts to the counters of the key.\<close>

definition incrementTokenUsage ::
  "clock \<Rightarrow> key_store \<Rightarrow> string \<Rightarrow> int \<Rightarrow> int \<Rightarrow> int \<Rightarrow> int \<Rightarrow> int \<Rightarrow> string
     \<Rightarrow> key_error + key_store" where
  "incrementTokenUsage c s keyId totalTokens i out cc cr model =
     kcall s (IncrementTokenUsage keyId)
       (s\<lparr>counters := bumpCounters (counters s) (keyCounters c keyId model) totalTokens i out cc cr\<rparr>)"

text \<open>Modelled from the spec: \<open>incrementAccountUsage\<close> of models/redis.js (section 4.6,
  step 4: the per-account counters, symmetrically).\<close>

definition incrementAccountUsage ::
  "clock \<Rightarrow> key_store \<Rightarrow> string \<Rightarrow> int \<Rightarrow> int \<Rightarrow> int \<Rightarrow> int \<Rightarrow> int \<Rightarrow> string
     \<Rightarrow> key_error + key_store" where
  "incrementAccountUsage c s a totalTokens i out cc cr model =
     kcall s (IncrementAccountUsage a)
       (s\<lparr>counters := bumpCounters (counters s) (accountCounters c a) totalTokens i out cc cr\<rparr>)"

text \<open>Modelled from the spec: \<open>incrementDailyCost\<close> of models/redis.js (section 4.6,
  step 3). It adds to the key's cost of the day.\<close>

definition incrementDailyCost :: "clock \<Rightarrow> key_store \<Rightarrow> string \<Rightarrow> int \<Rightarrow> key_error + key_store" where
  "incrementDailyCost c s keyId amount =
     kcall s (IncrementDailyCost keyId)
       (s\<lparr>dailyCost := (dailyCost s)((keyId, clock_day c) := dailyCost s (keyId, clock_day c) + amount)\<rparr>)"

text \<open>Modelled from the spec: \<open>getUsageStats\<close> of models/redis.js (section 4.2, step 7).
  It reads the key's lifetime counters.\<close>

definition getUsageStats :: "key_store \<Rightarrow> string \<Rightarrow> key_error + usage" where
  "getUsageStats s keyId = kcall s (GetUsageStats keyId) (counters s (KeyTotal keyId))"

text \<open>Modelled from the spec: \<open>getDailyCost\<close> of models/redis.js (section 4.2, step 7).
  It reads the key's cost of the day.\<close>

definition getDailyCost :: "clock \<Rightarrow> key_store \<Rightarrow> string \<Rightarrow> key_error + int" where
  "getDailyCost c s keyId = kcall s (GetDailyCost keyId) (dailyCost s (keyId, clock_day c))"

section \<open>API keys: conversions of the language\<close>

definition digitChar :: "nat \<Rightarrow> char" where
  "digitChar n = ''0123456789abcdef'' ! (n mod 16)"

fun natDigits :: "nat \<Rightarrow> string" where
  "natDigits n = (if n < 10 then [digitChar n] else natDigits (n div 10) @ [digitChar (n mod 10)])"

definition intString :: "int \<Rightarrow> string" where
  "intString n = (if n < 0 then CHR ''-'' # natDigits (nat (- n)) else natDigits (nat n))"

fun joinComma :: "string list \<Rightarrow> string" where
  "joinComma [] = []"
| "joinComma [x] = x"
| "joinComma (x # y # zs) = x @ '','' @ joinComma (y # zs)"

text \<open>\<open>String(v)\<close>, which for the defined values is also \<open>v.toString()\<close>.\<close>

fun js_String :: "jsval \<Rightarrow> string" where
  "js_String JUndefined = ''undefined''"
| "js_String JNull = ''null''"
| "js_String (JBool b) = (if b then ''true'' else ''false'')"
| "js_String (JNum n) = intString n"
| "js_String (JStr s) = s"
| "js_String (JArr xs) = joinComma xs"

text \<open>\<open>v ?? d\<close> and \<open>v || d\<close>.\<close>

definition nullish :: "jsval \<Rightarrow> jsval \<Rightarrow> jsval" where
  "nullish v d = (if v = JUndefined \<or> v = JNull then d else v)"

definition orElse :: "jsval \<Rightarrow> jsval \<Rightarrow> jsval" where
  "orElse v d = (if truthy v then v else d)"

text \<open>A destructured option with its default: the default applies to a missing or
  \<open>undefined\<close> property only.\<close>

definition optionOr :: "(string \<times> jsval) list \<Rightarrow> string \<Rightarrow> jsval \<Rightarrow> jsval" where
  "optionOr options k d =
     (case map_of options k of None \<Rightarrow> d | Some v \<Rightarrow> if v = JUndefined then d else v)"

definition startsWith :: "string \<Rightarrow> string \<Rightarrow> bool" where
  "startsWith s p = (take (length p) s = p)"

text \<open>\<open>_generateSecretKey\<close>: the hex encoding of the bytes \<open>crypto.randomBytes(32)\<close>
  returned; \<open>_hashApiKey\<close>: SHA-256 of the key followed by the encryption key.\<close>

definition generateSecretKey :: "nat list \<Rightarrow> string" where
  "generateSecretKey bytes = concat (map (\<lambda>b. [digitChar (b div 16), digitChar b]) bytes)"

definition hashApiKey :: "env \<Rightarrow> string \<Rightarrow> string" where
  "hashApiKey E apiKey = sha256hex E (apiKey @ encryptionKey E)"

section \<open>API keys: \<open>generateApiKey\<close>\<close>

text \<open>What \<open>generateApiKey\<close> returns: the id, the full key (returned at creation
  only) and the string fields of the record it stored; the numeric and list fields it
  parses back out of the record are left out.\<close>

record generated =
  gen_id :: string
  gen_apiKey :: string
  gen_name :: string
  gen_isActive :: bool
  gen_createdAt :: string
  gen_expiresAt :: string

definition orEmpty :: "jsval \<Rightarrow> string" where
  "orEmpty v = (if truthy v then js_String v else [])"

text \<open>The record \<open>keyData\<close>, field by field as the object literal lists them. The
  options are the caller's object; \<open>uuid\<close> is what \<open>uuidv4()\<close> returned and
  \<open>apiKey\<close> the prefixed secret.\<close>

definition newKeyData :: "env \<Rightarrow> clock \<Rightarrow> string \<Rightarrow> string \<Rightarrow> (string \<times> jsval) list \<Rightarrow> fields" where
  "newKeyData E c keyId hashedKey options =
     [(''id'', keyId),
      (''name'', js_String (optionOr options ''name'' (JStr ''Unnamed Key''))),
      (''description'', js_String (optionOr options ''description'' (JStr []))),
      (''apiKey'', hashedKey),
      (''tokenLimit'',
         js_String (nullish (optionOr options ''tokenLimit'' (defaultTokenLimit E)) (JNum 0))),
      (''concurrencyLimit'',
         js_String (nullish (optionOr options ''concurrencyLimit'' (JNum 0)) (JNum 0))),
      (''rateLimitWindow'',
         js_String (nullish (optionOr options ''rateLimitWindow'' JNull) (JNum 0))),
      (''rateLimitRequests'',
         js_String (nullish (optionOr options ''rateLimitRequests'' JNull) (JNum 0))),
      (''isActive'', js_String (optionOr options ''isActive'' (JBool True))),
      (''claudeAccountId'', orEmpty (optionOr options ''claudeAccountId'' JNull)),
      (''claudeConsoleAccountId'', orEmpty (optionOr options ''claudeConsoleAccountId'' JNull)),
      (''geminiAccountId'', orEmpty (optionOr options ''geminiAccountId'' JNull)),
      (''permissions'',
         js_String (orElse (optionOr options ''permissions'' (JStr ''all'')) (JStr ''all''))),
      (''enableModelRestriction'',
         js_String (optionOr options ''enableModelRestriction'' (JBool False))),
      (''restrictedModels'',
         json_stringify E (orElse (optionOr options ''restrictedModels'' (JArr [])) (JArr []))),
      (''enableClientRestriction'',
         js_String (orElse (optionOr options ''enableClientRestriction'' (JBool False))
                      (JBool False))),
      (''allowedClients'',
         json_stringify E (orElse (optionOr options ''allowedClients'' (JArr [])) (JArr []))),
      (''dailyCostLimit'',
         js_String (orElse (optionOr options ''dailyCostLimit'' (JNum 0)) (JNum 0))),
      (''tags'', json_stringify E (orElse (optionOr options ''tags'' (JArr [])) (JArr []))),
      (''createdAt'', clock_iso c),
      (''lastUsedAt'', []),
      (''expiresAt'', orEmpty (optionOr options ''expiresAt'' JNull)),
      (''createdBy'', ''admin'')]"

text \<open>\<open>generateApiKey\<close> has no \<open>try\<close>: a failing \<open>setApiKey\<close> rejects the call.\<close>

definition generateApiKey ::
  "env \<Rightarrow> clock \<Rightarrow> nat list \<Rightarrow> string \<Rightarrow> (string \<times> jsval) list \<Rightarrow> key_store
     \<Rightarrow> key_error + generated \<times> key_store" where
  "generateApiKey E c randomBytes uuid options s =
     (let apiKey = apiKeyPrefix E @ generateSecretKey randomBytes;
          keyId = uuid;
          hashedKey = hashApiKey E apiKey;
          keyData = newKeyData E c keyId hashedKey options
      in (case setApiKey s keyId keyData (Some hashedKey) of
            Inl e \<Rightarrow> Inl e
          | Inr s' \<Rightarrow>
              Inr (\<lparr>gen_id = keyId, gen_apiKey = apiKey, gen_name = field keyData ''name'',
                    gen_isActive = (field keyData ''isActive'' = ''true''),
                    gen_createdAt = field keyData ''createdAt'',
                    gen_expiresAt = field keyData ''expiresAt''\<rparr>, s')))"

section \<open>API keys: \<open>validateApiKey\<close>\<close>

datatype validation_error =
  InvalidFormat | KeyNotFound | KeyDisabled | KeyExpired | InternalValidationError

definition errorMessage :: "validation_error \<Rightarrow> string" where
  "errorMessage e =
     (case e of
        InvalidFormat \<Rightarrow> ''Invalid API key format''
      | KeyNotFound \<Rightarrow> ''API key not found''
      | KeyDisabled \<Rightarrow> ''API key is disabled''
      | KeyExpired \<Rightarrow> ''API key has expired''
      | InternalValidationError \<Rightarrow> ''Internal validation error'')"

text \<open>The \<open>keyData\<close> of a successful validation. \<open>parseInt\<close> results are \<open>None\<close> for
  \<open>NaN\<close>; \<open>dailyCostLimit\<close> is kept as the text \<open>parseFloat\<close> reads.\<close>

record validated =
  v_id :: string
  v_name :: string
  v_description :: string
  v_createdAt :: string
  v_expiresAt :: string
  v_claudeAccountId :: string
  v_claudeConsoleAccountId :: string
  v_geminiAccountId :: string
  v_permissions :: string
  v_tokenLimit :: "int option"
  v_concurrencyLimit :: "int option"
  v_rateLimitWindow :: "int option"
  v_rateLimitRequests :: "int option"
  v_enableModelRestriction :: bool
  v_restrictedModels :: jsval
  v_enableClientRestriction :: bool
  v_allowedClients :: jsval
  v_dailyCostLimit :: string
  v_dailyCost :: int
  v_tags :: jsval
  v_usage :: usage

datatype validation = Invalid validation_error | Valid validated

definition orZero :: "string \<Rightarrow> string" where
  "orZero v = (if v = [] then ''0'' else v)"

text \<open>\<open>v ? JSON.parse(v) : []\<close>, with \<open>[]\<close> when the parse throws.\<close>

definition parseList :: "env \<Rightarrow> string \<Rightarrow> jsval" where
  "parseList E v =
     (if v = [] then JArr [] else (case json_parse E v of None \<Rightarrow> JArr [] | Some x \<Rightarrow> x))"

text \<open>\<open>keyData.expiresAt && new Date() > new Date(keyData.expiresAt)\<close>; a comparison
  with an invalid date is false.\<close>

definition hasExpired :: "env \<Rightarrow> clock \<Rightarrow> fields \<Rightarrow> bool" where
  "hasExpired E c keyData =
     (field keyData ''expiresAt'' \<noteq> [] \<and>
      (case dateParse E (field keyData ''expiresAt'') of
         None \<Rightarrow> False
       | Some expiresAt \<Rightarrow> expiresAt < clock_ms c))"

definition validatedKeyData :: "env \<Rightarrow> fields \<Rightarrow> usage \<Rightarrow> int \<Rightarrow> validated" where
  "validatedKeyData E keyData u cost =
     \<lparr>v_id = field keyData ''id'',
      v_name = field keyData ''name'',
      v_description = field keyData ''description'',
      v_createdAt = field keyData ''createdAt'',
      v_expiresAt = field keyData ''expiresAt'',
      v_claudeAccountId = field keyData ''claudeAccountId'',
      v_claudeConsoleAccountId = field keyData ''claudeConsoleAccountId'',
      v_geminiAccountId = field keyData ''geminiAccountId'',
      v_permissions =
        (if field keyData ''permissions'' = [] then ''all'' else field keyData ''permissions''),
      v_tokenLimit = parseInt E (field keyData ''tokenLimit''),
      v_concurrencyLimit = parseInt E (orZero (field keyData ''concurrencyLimit'')),
      v_rateLimitWindow = parseInt E (orZero (field keyData ''rateLimitWindow'')),
      v_rateLimitRequests = parseInt E (orZero (field keyData ''rateLimitRequests'')),
      v_enableModelRestriction = (field keyData ''enableModelRestriction'' = ''true''),
      v_restrictedModels = parseList E (field keyData ''restrictedModels''),
      v_enableClientRestriction = (field keyData ''enableClientRestriction'' = ''true''),
      v_allowedClients = parseList E (field keyData ''allowedClients''),
      v_dailyCostLimit = orZero (field keyData ''dailyCostLimit''),
      v_dailyCost = cost,
      v_tags = parseList E (field keyData ''tags''),
      v_usage = u\<rparr>"

text \<open>\<open>validateApiKey\<close>: the checks in the order of the source; every exception inside
  the \<open>try\<close> is answered \<open>Internal validation error\<close>. It writes nothing.\<close>

definition validateApiKey :: "env \<Rightarrow> clock \<Rightarrow> string \<Rightarrow> key_store \<Rightarrow> validation" where
  "validateApiKey E c apiKey s =
     (if apiKey = [] \<or> \<not> startsWith apiKey (apiKeyPrefix E) then Invalid InvalidFormat
      else (case findApiKeyByHash s (hashApiKey E apiKey) of
              Inl e \<Rightarrow> Invalid InternalValidationError
            | Inr None \<Rightarrow> Invalid KeyNotFound
            | Inr (Some keyData) \<Rightarrow>
                if field keyData ''isActive'' \<noteq> ''true'' then Invalid KeyDisabled
                else if hasExpired E c keyData then Invalid KeyExpired
                else (case getUsageStats s (field keyData ''id'') of
                        Inl e \<Rightarrow> Invalid InternalValidationError
                      | Inr u \<Rightarrow>
                          (case getDailyCost c s (field keyData ''id'') of
                             Inl e \<Rightarrow> Invalid InternalValidationError
                           | Inr cost \<Rightarrow> Valid (validatedKeyData E keyData u cost)))))"

section \<open>API keys: \<open>updateApiKey\<close> and \<open>recordUsage\<close>\<close>

datatype outcome = Success | Recorded | FailureLogged key_error

text \<open>\<open>try { body } catch (error) { handler }\<close> around a body that may have written to
  the store before it threw.\<close>

definition tryCatch ::
  "(key_error + 'a) \<times> key_store \<Rightarrow> (key_error \<Rightarrow> key_error + 'a) \<Rightarrow> (key_error + 'a) \<times> key_store" where
  "tryCatch r handler = (case r of (Inl e, s) \<Rightarrow> (handler e, s) | (Inr v, s) \<Rightarrow> (Inr v, s))"

definition allowedUpdates :: "string list" where
  "allowedUpdates =
     [''name'', ''description'', ''tokenLimit'', ''concurrencyLimit'', ''rateLimitWindow'',
      ''rateLimitRequests'', ''isActive'', ''claudeAccountId'', ''claudeConsoleAccountId'',
      ''geminiAccountId'', ''permissions'', ''expiresAt'', ''enableModelRestriction'',
      ''restrictedModels'', ''enableClientRestriction'', ''allowedClients'', ''dailyCostLimit'',
      ''tags'']"

text \<open>One turn of the loop over \<open>Object.entries(updates)\<close>.\<close>

definition applyUpdate :: "env \<Rightarrow> fields \<Rightarrow> string \<times> jsval \<Rightarrow> fields" where
  "applyUpdate E updatedData fv =
     (case fv of (fld, v) \<Rightarrow>
        if fld \<in> set allowedUpdates then
          (if fld = ''restrictedModels'' \<or> fld = ''allowedClients'' \<or> fld = ''tags''
           then AList.update fld (json_stringify E (orElse v (JArr []))) updatedData
           else if fld = ''enableModelRestriction'' \<or> fld = ''enableClientRestriction''
           then AList.update fld (js_String v) updatedData
           else AList.update fld (if v = JUndefined \<or> v = JNull then [] else js_String v)
                  updatedData)
        else updatedData)"

definition updatedKeyData :: "env \<Rightarrow> clock \<Rightarrow> fields \<Rightarrow> (string \<times> jsval) list \<Rightarrow> fields" where
  "updatedKeyData E c keyData updates =
     AList.update ''updatedAt'' (clock_iso c) (foldl (applyUpdate E) keyData updates)"

definition updateApiKey_body ::
  "env \<Rightarrow> clock \<Rightarrow> string \<Rightarrow> (string \<times> jsval) list \<Rightarrow> key_store
     \<Rightarrow> (key_error + outcome) \<times> key_store" where
  "updateApiKey_body E c keyId updates s =
     (case getApiKey s keyId of
        Inl e \<Rightarrow> (Inl e, s)
      | Inr keyData \<Rightarrow>
          if keyData = [] then (Inl ApiKeyNotFound, s)
          else (case setApiKey s keyId (updatedKeyData E c keyData updates) None of
                  Inl e \<Rightarrow> (Inl e, s)
                | Inr s' \<Rightarrow> (Inr Success, s')))"

text \<open>\<open>updateApiKey\<close> logs and rethrows.\<close>

definition updateApiKey ::
  "env \<Rightarrow> clock \<Rightarrow> string \<Rightarrow> (string \<times> jsval) list \<Rightarrow> key_store
     \<Rightarrow> (key_error + outcome) \<times> key_store" where
  "updateApiKey E c keyId updates s =
     tryCatch (updateApiKey_body E c keyId updates s) (\<lambda>error. Inl error)"

text \<open>The body of \<open>recordUsage\<close>. An empty \<open>accountId\<close> (here \<open>accId\<close>) stands for \<open>null\<close>.\<close>

definition recordUsage_body ::
  "env \<Rightarrow> clock \<Rightarrow> string \<Rightarrow> int \<Rightarrow> int \<Rightarrow> int \<Rightarrow> int \<Rightarrow> string \<Rightarrow> string \<Rightarrow> key_store
     \<Rightarrow> (key_error + outcome) \<times> key_store" where
  "recordUsage_body E c keyId inputT outputT cacheCreateT cacheReadT model accId s =
     (let totalTokens = inputT + outputT + cacheCreateT + cacheReadT in
      case calculateCost E inputT outputT cacheCreateT cacheReadT model of
        None \<Rightarrow> (Inl CostCalculatorFailure, s)
      | Some costTotal \<Rightarrow>
          (case incrementTokenUsage c s keyId totalTokens inputT outputT cacheCreateT cacheReadT model of
             Inl e \<Rightarrow> (Inl e, s)
           | Inr s1 \<Rightarrow>
               (case (if 0 < costTotal then incrementDailyCost c s1 keyId costTotal else Inr s1) of
                  Inl e \<Rightarrow> (Inl e, s1)
                | Inr s2 \<Rightarrow>
                    (case getApiKey s2 keyId of
                       Inl e \<Rightarrow> (Inl e, s2)
                     | Inr keyData \<Rightarrow>
                         if keyData \<noteq> [] then
                           (case setApiKey s2 keyId
                                   (AList.update ''lastUsedAt'' (clock_iso c) keyData) None of
                              Inl e \<Rightarrow> (Inl e, s2)
                            | Inr s3 \<Rightarrow>
                                if accId \<noteq> [] then
                                  (case incrementAccountUsage c s3 accId totalTokens inputT
                                          outputT cacheCreateT cacheReadT model of
                                     Inl e \<Rightarrow> (Inl e, s3)
                                   | Inr s4 \<Rightarrow> (Inr Recorded, s4))
                                else (Inr Recorded, s3))
                         else (Inr Recorded, s2)))))"

text \<open>\<open>recordUsage\<close> logs the error and returns.\<close>

definition recordUsage ::
  "env \<Rightarrow> clock \<Rightarrow> string \<Rightarrow> int \<Rightarrow> int \<Rightarrow> int \<Rightarrow> int \<Rightarrow> string \<Rightarrow> string \<Rightarrow> key_store
     \<Rightarrow> (key_error + outcome) \<times> key_store" where
  "recordUsage E c keyId inputT outputT cacheCreateT cacheReadT model accId s =
     tryCatch (recordUsage_body E c keyId inputT outputT cacheCreateT cacheReadT model accId s)
       (\<lambda>error. Inr (FailureLogged error))"

section \<open>Notions used in the statements\<close>

text \<open>A field of the record stored under a key id.\<close>

definition storedField :: "key_store \<Rightarrow> string \<Rightarrow> string \<Rightarrow> string option" where
  "storedField s keyId fld = (case apikeys s keyId of None \<Rightarrow> None | Some d \<Rightarrow> map_of d fld)"

text \<open>The key has a non-empty record: the test \<open>keyData && Object.keys(keyData).length > 0\<close>
  of \<open>recordUsage\<close> on what \<open>getApiKey\<close> returns.\<close>

definition recordExists :: "key_store \<Rightarrow> string \<Rightarrow> bool" where
  "recordExists s keyId = (case apikeys s keyId of None \<Rightarrow> False | Some d \<Rightarrow> d \<noteq> [])"

text \<open>The fields \<open>updateApiKey\<close> never writes: those outside the allow-list, except the
  \<open>updatedAt\<close> stamp it sets on every update.\<close>

definition protectedField :: "string \<Rightarrow> bool" where
  "protectedField f = (f \<notin> set allowedUpdates \<and> f \<noteq> ''updatedAt'')"

text \<open>Two stores agree on the identity of their keys: the same hash index, the same
  failing calls, records under the same ids, and every record with the protected fields
  it had.\<close>

definition sameIdentity :: "key_store \<Rightarrow> key_store \<Rightarrow> bool" where
  "sameIdentity s s' =
     (hash_map s' = hash_map s \<and> key_failing s' = key_failing s \<and>
      (\<forall>k. case apikeys s k of
              None \<Rightarrow> apikeys s' k = None
            | Some d \<Rightarrow> (\<exists>d'. apikeys s' k = Some d' \<and> (d' = [] \<longleftrightarrow> d = []) \<and>
                          (\<forall>f. protectedField f \<longrightarrow> map_of d' f = map_of d f))))"

text \<open>A sequence of admin updates, each at its own time and for its own key; an update
  that throws leaves the store as it was and the sequence goes on.\<close>

fun applyUpdates ::
  "env \<Rightarrow> (clock \<times> string \<times> (string \<times> jsval) list) list \<Rightarrow> key_store \<Rightarrow> key_store" where
  "applyUpdates E [] s = s"
| "applyUpdates E ((c, keyId, updates) # rest) s =
     applyUpdates E rest (snd (updateApiKey E c keyId updates s))"

text \<open>The round trip of section 8: generate a key at time \<open>c\<close>, then validate the secret
  it returned at time \<open>c'\<close>; the result is the generated id and the validation.\<close>

definition generateThenValidate ::
  "env \<Rightarrow> clock \<Rightarrow> clock \<Rightarrow> nat list \<Rightarrow> string \<Rightarrow> (string \<times> jsval) list \<Rightarrow> key_store
     \<Rightarrow> key_error + string \<times> validation" where
  "generateThenValidate E c c' randomBytes uuid options s =
     (case generateApiKey E c randomBytes uuid options s of
        Inl e \<Rightarrow> Inl e
      | Inr (g, s') \<Rightarrow> Inr (gen_id g, validateApiKey E c' (gen_apiKey g) s'))"

section \<open>Sample data\<close>

text \<open>
  An environment for the examples: \<open>parseInt\<close>, the date parser and JSON on the values
  the examples use (with the results JavaScript gives for them), a stand-in for the digest
  (no example depends on which function it is), a configuration, and a linear cost.
\<close>

definition sample_env :: env where
  "sample_env =
     \<lparr>parseInt = (\<lambda>s. if s = ''10'' then Some 10 else if s = ''50'' then Some 50 else None),
      dateParse = (\<lambda>s. if s = ''2025-01-01T00:00:00.000Z'' then Some 1735689600000
                        else if s = ''2025-01-01T01:00:00.000Z'' then Some 1735693200000
                        else None),
      sha256hex = (\<lambda>s. ''digest:'' @ s),
      json_stringify = (\<lambda>v. case v of JArr [] \<Rightarrow> ''[]'' | _ \<Rightarrow> js_String v),
      json_parse = (\<lambda>s. if s = ''[]'' then Some (JArr []) else None),
      apiKeyPrefix = ''cr_'',
      encryptionKey = ''pepper'',
      defaultTokenLimit = JNum 1000000,
      isTokenExpired = (\<lambda>a. False),
      isModelSupported = (\<lambda>m model. map_of m model \<noteq> None),
      calculateCost = (\<lambda>i out cc cr model. Some (3 * i + 15 * out))\<rparr>"

text \<open>Candidates: \<open>candA\<close> and \<open>candB\<close> tie on priority and last use and differ in
  their ids; \<open>candFirst\<close> has the smaller priority number and the later last use.\<close>

definition candA :: candidate where
  "candA = \<lparr>accountId = ''a'', accountType = ''openai'', priority = 50,
            lastUsedAt = ''2025-01-01T00:00:00.000Z'', name = ''A''\<rparr>"

definition candB :: candidate where
  "candB = \<lparr>accountId = ''b'', accountType = ''openai'', priority = 50,
            lastUsedAt = ''2025-01-01T00:00:00.000Z'', name = ''B''\<rparr>"

definition candFirst :: candidate where
  "candFirst = \<lparr>accountId = ''c'', accountType = ''openai'', priority = 10,
                lastUsedAt = ''2025-01-01T01:00:00.000Z'', name = ''C''\<rparr>"

text \<open>An OpenAI account marked limited at 2025-01-01T00:00:00Z, and a store holding it.\<close>

definition limitedAccount :: account where
  "limitedAccount =
     \<lparr>acc_id = ''A1'', acc_name = ''bound'', isActive = JStr ''true'', status = ''active'',
      acc_accountType = ''dedicated'', schedulable = JUndefined, acc_priority = ''50'',
      acc_lastUsedAt = ''2025-01-01T00:00:00.000Z'', rateLimitStatus = ''limited'',
      rateLimitedAt = ''2025-01-01T00:00:00.000Z'', supportedModels = ModelList [''gpt-4o''],
      refreshToken = ''r''\<rparr>"

definition poolAccount :: account where
  "poolAccount =
     \<lparr>acc_id = ''A2'', acc_name = ''pool'', isActive = JStr ''true'', status = ''active'',
      acc_accountType = ''shared'', schedulable = JUndefined, acc_priority = ''50'',
      acc_lastUsedAt = [], rateLimitStatus = ''normal'',
      rateLimitedAt = [], supportedModels = ModelsUnset,
      refreshToken = ''r''\<rparr>"

definition openai_store :: store where
  "openai_store =
     \<lparr>claudeAccounts = [], consoleAccounts = [], openaiAccounts = [limitedAccount, poolAccount],
      claudeLimited = (\<lambda>i. False), consoleLimited = (\<lambda>i. False),
      groups = Map.empty, redis = Map.empty, failing = (\<lambda>c. False)\<rparr>"

text \<open>A key bound to the OpenAI account \<open>A1\<close>, a key bound to the Claude OAuth account
  \<open>A1\<close>, and a key with no binding.\<close>

definition boundOpenAIKey :: apiKeyData where
  "boundOpenAIKey = \<lparr>key_name = ''K'', claudeAccountId = [], claudeConsoleAccountId = [],
                      openaiAccountId = ''A1''\<rparr>"

definition boundClaudeKey :: apiKeyData where
  "boundClaudeKey = \<lparr>key_name = ''K'', claudeAccountId = ''A1'', claudeConsoleAccountId = [],
                      openaiAccountId = []\<rparr>"

definition freeKey :: apiKeyData where
  "freeKey = \<lparr>key_name = ''K'', claudeAccountId = [], claudeConsoleAccountId = [],
               openaiAccountId = []\<rparr>"

text \<open>Three Claude OAuth accounts, and a store in which the session \<open>h1\<close> is mapped to
  \<open>A2\<close> until 2025-01-01T01:00:00Z.\<close>

definition claudeA1 :: account where
  "claudeA1 = poolAccount\<lparr>acc_id := ''A1'', acc_name := ''dedicated one'',
                acc_accountType := ''dedicated''\<rparr>"

definition claudeA2 :: account where
  "claudeA2 = poolAccount\<lparr>acc_id := ''A2'', acc_name := ''shared two''\<rparr>"

definition claudeA3 :: account where
  "claudeA3 = poolAccount\<lparr>acc_id := ''A3'', acc_name := ''shared three'', acc_priority := ''10''\<rparr>"

definition sessionA2 :: redis_entry where
  "sessionA2 = \<lparr>entry_value = MappingJson \<lparr>accountId = ''A2'', accountType = ''claude-official''\<rparr>,
                entry_expiresAt = 1735689600000 + 3600000\<rparr>"

definition claude_store :: store where
  "claude_store =
     \<lparr>claudeAccounts = [claudeA1, claudeA2, claudeA3], consoleAccounts = [], openaiAccounts = [],
      claudeLimited = (\<lambda>i. False), consoleLimited = (\<lambda>i. False),
      groups = Map.empty,
      redis = [CLAUDE_SESSION_MAPPING_PREFIX @ ''h1'' \<mapsto> sessionA2],
      failing = (\<lambda>c. False)\<rparr>"

text \<open>A key store holding one active key \<open>k1\<close> whose secret is \<open>cr_secret\<close> and which
  expires at 2025-01-01T00:00:00Z, the instant of \<open>sample_clock\<close>; the same store with the
  key disabled; and the same store with every call failing.\<close>

definition zeroUsage :: usage where
  "zeroUsage = \<lparr>requests = 0, inputTokens = 0, outputTokens = 0, cacheCreateTokens = 0,
                 cacheReadTokens = 0, allTokens = 0\<rparr>"

definition sample_clock :: clock where
  "sample_clock = \<lparr>clock_ms = 1735689600000, clock_iso = ''2025-01-01T00:00:00.000Z'',
                    clock_day = ''2025-01-01'', clock_month = ''2025-01''\<rparr>"

definition late_clock :: clock where
  "late_clock = \<lparr>clock_ms = 1735689600001, clock_iso = ''2025-01-01T00:00:00.001Z'',
                  clock_day = ''2025-01-01'', clock_month = ''2025-01''\<rparr>"

definition empty_key_store :: key_store where
  "empty_key_store = \<lparr>apikeys = Map.empty, hash_map = Map.empty, counters = (\<lambda>k. zeroUsage),
                       dailyCost = (\<lambda>k. 0), key_failing = (\<lambda>c. False)\<rparr>"

definition sampleKeyData :: fields where
  "sampleKeyData =
     [(''id'', ''k1''), (''name'', ''Key''), (''apiKey'', ''digest:cr_secretpepper''),
      (''isActive'', ''true''), (''createdAt'', ''2024-12-01T00:00:00.000Z''),
      (''expiresAt'', ''2025-01-01T00:00:00.000Z'')]"

definition key_store1 :: key_store where
  "key_store1 = empty_key_store\<lparr>apikeys := [''k1'' \<mapsto> sampleKeyData],
                                 hash_map := [''digest:cr_secretpepper'' \<mapsto> ''k1'']\<rparr>"

definition disabled_store :: key_store where
  "disabled_store =
     key_store1\<lparr>apikeys := [''k1'' \<mapsto> AList.update ''isActive'' ''false'' sampleKeyData]\<rparr>"

definition broken_store :: key_store where
  "broken_store = key_store1\<lparr>key_failing := (\<lambda>c. True)\<rparr>"

text \<open>The 32 bytes of a secret, and an admin update that disables \<open>k1\<close> and tries to
  overwrite its hash and its id.\<close>

definition bytes32 :: "nat list" where
  "bytes32 = replicate 32 171"

definition sampleUpdates :: "(clock \<times> string \<times> (string \<times> jsval) list) list" where
  "sampleUpdates =
     [(sample_clock, ''k1'',
       [(''isActive'', JBool False), (''apiKey'', JStr ''forged''), (''id'', JStr ''other'')])]"

section \<open>Ranking of candidates\<close>

lemma sortsAfter_rankKey:
  "validDate E a \<Longrightarrow> validDate E b \<Longrightarrow> sortsAfter E a b \<longleftrightarrow> \<not> rankKey E a \<le> rankKey E b"
  by (auto simp: sortsAfter_def compareAccounts_def rankKey_def validDate_def less_eq_prod_def
           split: option.splits)

lemma insertSorted_insort_key:
  "validDate E a \<Longrightarrow> \<forall>b\<in>set bs. validDate E b \<Longrightarrow>
   insertSorted E a bs = insort_key (rankKey E) a bs"
  by (induction bs) (simp_all add: sortsAfter_rankKey)

lemma sortAccountsByPriority_sort_key:
  "\<forall>a\<in>set as. validDate E a \<Longrightarrow> sortAccountsByPriority E as = sort_key (rankKey E) as"
  by (induction as) (simp_all add: insertSorted_insort_key)

lemma rankKey_le:
  "rankKey E a \<le> rankKey E b \<longleftrightarrow>
     priority a < priority b \<or> priority a = priority b \<and> snd (rankKey E a) \<le> snd (rankKey E b)"
  by (auto simp: rankKey_def less_eq_prod_def)

text \<open>
  C2, as the code has it. For candidates whose \<open>lastUsedAt\<close> is a date, the result is a
  permutation of the input, ordered by priority ascending and, among equal priorities, by
  last use ascending; candidates that tie on both keep the order they had in the input
  (the sort is stable, and the id is not compared); sorting a sorted list changes nothing.
\<close>

theorem sortAccountsByPriority_stable_rank:
  assumes "\<forall>a\<in>set as. validDate E a"
  shows "mset (sortAccountsByPriority E as) = mset as \<and>
         sorted_wrt (\<lambda>a b. priority a < priority b \<or>
                            priority a = priority b \<and> snd (rankKey E a) \<le> snd (rankKey E b))
           (sortAccountsByPriority E as) \<and>
         (\<forall>k. filter (\<lambda>a. rankKey E a = k) (sortAccountsByPriority E as) =
              filter (\<lambda>a. rankKey E a = k) as) \<and>
         sortAccountsByPriority E (sortAccountsByPriority E as) = sortAccountsByPriority E as"
proof -
  let ?s = "sort_key (rankKey E) as"
  have eq: "sortAccountsByPriority E as = ?s"
    using assms by (rule sortAccountsByPriority_sort_key)
  have perm: "mset ?s = mset as" by simp
  have "sorted (map (rankKey E) ?s)" by simp
  then have "sorted_wrt (\<lambda>a b. rankKey E a \<le> rankKey E b) ?s"
    by (simp add: sorted_map)
  then have ordered: "sorted_wrt (\<lambda>a b. priority a < priority b \<or>
                        priority a = priority b \<and> snd (rankKey E a) \<le> snd (rankKey E b)) ?s"
    by (simp add: rankKey_le)
  have stable: "\<forall>k. filter (\<lambda>a. rankKey E a = k) ?s = filter (\<lambda>a. rankKey E a = k) as"
    by (simp add: sort_key_stable)
  have "\<forall>a\<in>set ?s. validDate E a" using assms by simp
  then have "sortAccountsByPriority E ?s = sort_key (rankKey E) ?s"
    by (rule sortAccountsByPriority_sort_key)
  then have idem: "sortAccountsByPriority E ?s = ?s"
    by (simp add: sort_key_id_if_sorted)
  show ?thesis
    unfolding eq using perm ordered stable idem by blast
qed

theorem sortAccountsByPriority_stable_rank_witness:
  "sortAccountsByPriority sample_env [candB, candFirst, candA] = [candFirst, candB, candA] \<and>
   mset (sortAccountsByPriority sample_env [candB, candFirst, candA]) =
     mset [candB, candFirst, candA] \<and>
   sortAccountsByPriority sample_env (sortAccountsByPriority sample_env [candB, candFirst, candA]) =
     sortAccountsByPriority sample_env [candB, candFirst, candA]"
proof -
  have valid: "\<forall>a\<in>set [candB, candFirst, candA]. validDate sample_env a"
    by (simp add: validDate_def lastUsedTime_def sample_env_def candA_def candB_def candFirst_def)
  have run: "sortAccountsByPriority sample_env [candB, candFirst, candA] = [candFirst, candB, candA]"
    by (simp add: sortsAfter_def compareAccounts_def lastUsedTime_def sample_env_def
          candA_def candB_def candFirst_def)
  from sortAccountsByPriority_stable_rank [OF valid] run show ?thesis by simp
qed

text \<open>
  C2 as stated fails: ties on priority and last use are not broken by id. The same two
  candidates come out in the order they went in, whichever it was.
\<close>

theorem sortAccountsByPriority_ties_keep_input_order:
  "priority candA = priority candB \<and>
   lastUsedTime sample_env candA = lastUsedTime sample_env candB \<and>
   map accountId (sortAccountsByPriority sample_env [candB, candA]) = [''b'', ''a''] \<and>
   map accountId (sortAccountsByPriority sample_env [candA, candB]) = [''a'', ''b'']"
  by (simp add: sortsAfter_def compareAccounts_def lastUsedTime_def sample_env_def
        candA_def candB_def)

section \<open>The rate-limit window\<close>

text \<open>
  C3. \<open>isAccountRateLimited\<close> of the OpenAI scheduler answers true exactly when the
  account's record reads \<open>rateLimitStatus = 'limited'\<close> with \<open>rateLimitedAt\<close> set and
  the current time is strictly before \<open>rateLimitedAt\<close> plus one hour (3600000 ms); at that
  instant and after it the account reads as not limited.
\<close>

theorem openai_isAccountRateLimited_iff:
  "openai_isAccountRateLimited E now s i \<longleftrightarrow>
     (\<exists>account limitedAt. openai_getAccount s i = Inr (Some account) \<and>
        rateLimitStatus account = ''limited'' \<and> rateLimitedAt account \<noteq> [] \<and>
        dateParse E (rateLimitedAt account) = Some limitedAt \<and> now < limitedAt + 3600000)"
  by (auto simp: openai_isAccountRateLimited_def split: sum.splits option.splits)

theorem openai_isAccountRateLimited_iff_witness:
  "openai_isAccountRateLimited sample_env (1735689600000 + 3599999) openai_store ''A1'' \<and>
   \<not> openai_isAccountRateLimited sample_env (1735689600000 + 3600000) openai_store ''A1'' \<and>
   \<not> openai_isAccountRateLimited sample_env (1735689600000 + 3599999) openai_store ''A2''"
  unfolding openai_isAccountRateLimited_iff
  by (simp add: openai_getAccount_def call_def findAccount_def openai_store_def
        limitedAccount_def poolAccount_def sample_env_def)

section \<open>Dedicated bindings and sticky sessions\<close>

lemma claude_select_dedicated:
  "claude_dedicated s k = Inr (Some r) \<Longrightarrow>
   claude_selectAccountForApiKey E now k h m s = (Inr r, s)"
  by (simp add: claude_selectAccountForApiKey_def)

lemma claude_select_dedicated_error:
  "claude_dedicated s k = Inl e \<Longrightarrow>
   claude_selectAccountForApiKey E now k h m s = (Inl e, s)"
  by (simp add: claude_selectAccountForApiKey_def)

lemma claude_dedicated_official:
  "claudeAccountId k \<noteq> [] \<Longrightarrow> claude_getAccount s (claudeAccountId k) = Inr (Some b) \<Longrightarrow>
   isActive b = JStr ''true'' \<Longrightarrow> status b \<noteq> ''error'' \<Longrightarrow>
   claude_dedicated s k =
     Inr (Some \<lparr>accountId = claudeAccountId k, accountType = ''claude-official''\<rparr>)"
  by (simp add: claude_dedicated_def claude_boundOfficial_def andThen_def)

lemma claude_dedicated_console:
  "claude_boundOfficial s k = Inr None \<Longrightarrow> claudeConsoleAccountId k \<noteq> [] \<Longrightarrow>
   console_getAccount s (claudeConsoleAccountId k) = Inr (Some b) \<Longrightarrow>
   isActive b = JBool True \<Longrightarrow> status b = ''active'' \<Longrightarrow>
   claude_dedicated s k =
     Inr (Some \<lparr>accountId = claudeConsoleAccountId k, accountType = ''claude-console''\<rparr>)"
  by (simp add: claude_dedicated_def claude_boundConsole_def andThen_def)

lemma openai_select_dedicated:
  "openaiAccountId k \<noteq> [] \<Longrightarrow> take 6 (openaiAccountId k) \<noteq> ''group:'' \<Longrightarrow>
   openai_getAccount s (openaiAccountId k) = Inr (Some b) \<Longrightarrow>
   isActive b = JStr ''true'' \<Longrightarrow> status b \<noteq> ''error'' \<Longrightarrow>
   openai_selectAccountForApiKey E now k h m s =
     (Inr \<lparr>accountId = openaiAccountId k, accountType = ''openai''\<rparr>, s)"
  by (simp add: openai_selectAccountForApiKey_def openai_dedicated_def andThen_def)

lemma claude_sticky_reuse:
  "h \<noteq> [] \<Longrightarrow> getSessionMapping CLAUDE_SESSION_MAPPING_PREFIX now s h = Inr (Some m) \<Longrightarrow>
   claude_isAccountAvailable s m \<Longrightarrow>
   claude_sticky E now k h model s = (Inr m, s)"
  by (simp add: claude_sticky_def)

text \<open>
  C1, evaluated on the code. The OpenAI account \<open>A1\<close> is rate-limited at the time of the
  call (marked one minute earlier), the key is bound to it, and
  \<open>selectAccountForApiKey\<close> returns \<open>A1\<close> all the same: the binding is tested for
  \<open>isActive\<close> and \<open>status\<close> only. \<open>_getAllAvailableAccounts\<close>, which checks the rate
  limit of the bound account, would have gone on to the pool account \<open>A2\<close>; it is never
  reached.
\<close>

theorem bound_account_returned_while_rate_limited:
  "openai_isAccountRateLimited sample_env (1735689600000 + 60000) openai_store ''A1'' \<and>
   openai_selectAccountForApiKey sample_env (1735689600000 + 60000) boundOpenAIKey []
       ''gpt-4o'' openai_store =
     (Inr \<lparr>accountId = ''A1'', accountType = ''openai''\<rparr>, openai_store) \<and>
   openai_getAllAvailableAccounts sample_env (1735689600000 + 60000) boundOpenAIKey
       ''gpt-4o'' openai_store =
     Inr [toCandidate sample_env ''openai'' poolAccount]"
proof -
  have limited:
    "openai_isAccountRateLimited sample_env (1735689600000 + 60000) openai_store ''A1''"
    by (simp add: openai_isAccountRateLimited_def openai_getAccount_def call_def
          findAccount_def openai_store_def limitedAccount_def poolAccount_def sample_env_def)
  have selected:
    "openai_selectAccountForApiKey sample_env (1735689600000 + 60000) boundOpenAIKey []
       ''gpt-4o'' openai_store =
     (Inr \<lparr>accountId = ''A1'', accountType = ''openai''\<rparr>, openai_store)"
    by (simp add: openai_selectAccountForApiKey_def openai_dedicated_def andThen_def
          openai_getAccount_def call_def findAccount_def openai_store_def limitedAccount_def
          poolAccount_def boundOpenAIKey_def)
  have sibling:
    "openai_getAllAvailableAccounts sample_env (1735689600000 + 60000) boundOpenAIKey
       ''gpt-4o'' openai_store =
     Inr [toCandidate sample_env ''openai'' poolAccount]"
    by (simp add: openai_getAllAvailableAccounts_def openai_availableBound_def
          openai_isAccountRateLimited_def openai_admits_def openai_modelExcluded_def
          isSchedulable_def andThen_def openai_getAccount_def call_def findAccount_def
          openai_store_def limitedAccount_def poolAccount_def sample_env_def boundOpenAIKey_def)
  from limited selected sibling show ?thesis by blast
qed

text \<open>The same in the Claude scheduler, for every store: whatever
  \<open>claudeAccountService.isAccountRateLimited\<close> answers for the bound account, an active
  bound account whose status is not \<open>error\<close> is returned.\<close>

lemma claude_binding_ignores_rate_limit:
  "claudeAccountId k \<noteq> [] \<Longrightarrow> claude_getAccount s (claudeAccountId k) = Inr (Some b) \<Longrightarrow>
   isActive b = JStr ''true'' \<Longrightarrow> status b \<noteq> ''error'' \<Longrightarrow>
   claude_isRateLimited s (claudeAccountId k) = Inr True \<Longrightarrow>
   claude_selectAccountForApiKey E now k h m s =
     (Inr \<lparr>accountId = claudeAccountId k, accountType = ''claude-official''\<rparr>, s)"
  by (simp add: claude_select_dedicated claude_dedicated_official)

lemma getSessionMapping_after_expiry:
  "redis s (prefix @ h) = Some e \<Longrightarrow> entry_expiresAt e \<le> later \<Longrightarrow>
   \<not> failing s (RedisGet (prefix @ h)) \<Longrightarrow> getSessionMapping prefix later s h = Inr None"
  by (simp add: getSessionMapping_def redis_get_def call_def andThen_def)

text \<open>
  C4. When the session's mapping is found and the mapped account is still available, the
  call leaves the store as it was: the mapping is not rewritten and keeps the expiry it
  had, so reuse does not extend the one-hour window, and from that expiry on the mapping
  reads as absent however often it was reused. When no dedicated binding takes
  precedence, the mapped account is what the call returns.
\<close>

theorem sticky_reuse_keeps_mapping:
  assumes "h \<noteq> []"
    and "getSessionMapping CLAUDE_SESSION_MAPPING_PREFIX now s h = Inr (Some m)"
    and "claude_isAccountAvailable s m"
  shows "snd (claude_selectAccountForApiKey E now k h model s) = s \<and>
         (claude_dedicated s k = Inr None \<longrightarrow>
            fst (claude_selectAccountForApiKey E now k h model s) = Inr m) \<and>
         (\<forall>e later. redis s (CLAUDE_SESSION_MAPPING_PREFIX @ h) = Some e \<and>
              entry_expiresAt e \<le> later \<and>
              \<not> failing s (RedisGet (CLAUDE_SESSION_MAPPING_PREFIX @ h)) \<longrightarrow>
            getSessionMapping CLAUDE_SESSION_MAPPING_PREFIX later
              (snd (claude_selectAccountForApiKey E now k h model s)) h = Inr None)"
proof -
  have unchanged: "snd (claude_selectAccountForApiKey E now k h model s) = s \<and>
         (claude_dedicated s k = Inr None \<longrightarrow>
            fst (claude_selectAccountForApiKey E now k h model s) = Inr m)"
  proof (cases "claude_dedicated s k")
    case (Inl e)
    then show ?thesis by (simp add: claude_select_dedicated_error)
  next
    case (Inr r)
    show ?thesis
    proof (cases r)
      case None
      with Inr assms show ?thesis
        by (simp add: claude_selectAccountForApiKey_def claude_sticky_reuse)
    next
      case (Some b)
      with Inr show ?thesis by (simp add: claude_select_dedicated)
    qed
  qed
  then show ?thesis by (simp add: getSessionMapping_after_expiry)
qed

text \<open>The key has no binding and the pool would prefer \<open>A3\<close> (priority 10); the session
  \<open>h1\<close> is mapped to \<open>A2\<close>, which is returned, and the mapping still ends at its
  original expiry.\<close>

theorem sticky_reuse_keeps_mapping_witness:
  "claude_selectAccountForApiKey sample_env 1735689600000 freeKey ''h1''
       ''claude-3-5-sonnet-20241022'' claude_store =
     (Inr \<lparr>accountId = ''A2'', accountType = ''claude-official''\<rparr>, claude_store) \<and>
   redis claude_store (CLAUDE_SESSION_MAPPING_PREFIX @ ''h1'') = Some sessionA2 \<and>
   getSessionMapping CLAUDE_SESSION_MAPPING_PREFIX (1735689600000 + 3600000)
     (snd (claude_selectAccountForApiKey sample_env 1735689600000 freeKey ''h1''
             ''claude-3-5-sonnet-20241022'' claude_store)) ''h1'' = Inr None"
proof -
  have h1: "''h1'' \<noteq> []" by simp
  have h2: "getSessionMapping CLAUDE_SESSION_MAPPING_PREFIX 1735689600000 claude_store ''h1'' =
              Inr (Some \<lparr>accountId = ''A2'', accountType = ''claude-official''\<rparr>)"
    by (simp add: getSessionMapping_def redis_get_def andThen_def call_def claude_store_def
          sessionA2_def)
  have h3: "claude_isAccountAvailable claude_store
              \<lparr>accountId = ''A2'', accountType = ''claude-official''\<rparr>"
    by (simp add: claude_isAccountAvailable_def claude_getAccount_def claude_isRateLimited_def
          call_def findAccount_def claude_store_def claudeA1_def claudeA2_def claudeA3_def
          poolAccount_def)
  have h4: "claude_dedicated claude_store freeKey = Inr None"
    by (simp add: claude_dedicated_def claude_boundOfficial_def claude_boundConsole_def
          andThen_def freeKey_def)
  have h5: "redis claude_store (CLAUDE_SESSION_MAPPING_PREFIX @ ''h1'') = Some sessionA2"
    by (simp add: claude_store_def)
  have h6: "entry_expiresAt sessionA2 \<le> 1735689600000 + 3600000"
    by (simp add: sessionA2_def)
  have h7: "\<not> failing claude_store (RedisGet (CLAUDE_SESSION_MAPPING_PREFIX @ ''h1''))"
    by (simp add: claude_store_def)
  from sticky_reuse_keeps_mapping [OF h1 h2 h3, of sample_env freeKey
         "''claude-3-5-sonnet-20241022''"]
  have "snd (claude_selectAccountForApiKey sample_env 1735689600000 freeKey ''h1''
               ''claude-3-5-sonnet-20241022'' claude_store) = claude_store"
    and "claude_dedicated claude_store freeKey = Inr None \<longrightarrow>
           fst (claude_selectAccountForApiKey sample_env 1735689600000 freeKey ''h1''
                  ''claude-3-5-sonnet-20241022'' claude_store) =
             Inr \<lparr>accountId = ''A2'', accountType = ''claude-official''\<rparr>"
    and "\<forall>e later. redis claude_store (CLAUDE_SESSION_MAPPING_PREFIX @ ''h1'') = Some e \<and>
              entry_expiresAt e \<le> later \<and>
              \<not> failing claude_store (RedisGet (CLAUDE_SESSION_MAPPING_PREFIX @ ''h1'')) \<longrightarrow>
            getSessionMapping CLAUDE_SESSION_MAPPING_PREFIX later
              (snd (claude_selectAccountForApiKey sample_env 1735689600000 freeKey ''h1''
                      ''claude-3-5-sonnet-20241022'' claude_store)) ''h1'' = Inr None"
    by blast+
  with h4 h5 h6 h7 show ?thesis by (simp add: prod_eq_iff)
qed

text \<open>
  C5. When a dedicated binding yields the returned account, the call returns before it
  looks at the session: the store, and with it the mapping of the session hash, is
  unchanged. This holds for the Claude OAuth binding, for the Claude Console binding
  (reached when the OAuth binding yields nothing) and for the individual OpenAI binding.
\<close>

theorem dedicated_binding_leaves_session_mapping:
  "(claudeAccountId k \<noteq> [] \<and> claude_getAccount s (claudeAccountId k) = Inr (Some b) \<and>
    isActive b = JStr ''true'' \<and> status b \<noteq> ''error'' \<longrightarrow>
      claude_selectAccountForApiKey E now k h m s =
        (Inr \<lparr>accountId = claudeAccountId k, accountType = ''claude-official''\<rparr>, s)) \<and>
   (claude_boundOfficial s k = Inr None \<and> claudeConsoleAccountId k \<noteq> [] \<and>
    console_getAccount s (claudeConsoleAccountId k) = Inr (Some b) \<and>
    isActive b = JBool True \<and> status b = ''active'' \<longrightarrow>
      claude_selectAccountForApiKey E now k h m s =
        (Inr \<lparr>accountId = claudeConsoleAccountId k, accountType = ''claude-console''\<rparr>, s)) \<and>
   (openaiAccountId k \<noteq> [] \<and> take 6 (openaiAccountId k) \<noteq> ''group:'' \<and>
    openai_getAccount s (openaiAccountId k) = Inr (Some b) \<and>
    isActive b = JStr ''true'' \<and> status b \<noteq> ''error'' \<longrightarrow>
      openai_selectAccountForApiKey E now k h m s =
        (Inr \<lparr>accountId = openaiAccountId k, accountType = ''openai''\<rparr>, s))"
  by (simp add: claude_select_dedicated claude_dedicated_official claude_dedicated_console
        openai_select_dedicated)

text \<open>The spec's first scenario: the key is bound to \<open>A1\<close>, the session \<open>h1\<close> is mapped
  to \<open>A2\<close>; the call returns \<open>A1\<close> and the mapping still points at \<open>A2\<close>.\<close>

theorem dedicated_binding_leaves_session_mapping_witness:
  "claude_selectAccountForApiKey sample_env 1735689600000 boundClaudeKey ''h1''
       ''claude-3-5-sonnet-20241022'' claude_store =
     (Inr \<lparr>accountId = ''A1'', accountType = ''claude-official''\<rparr>, claude_store) \<and>
   redis claude_store (CLAUDE_SESSION_MAPPING_PREFIX @ ''h1'') = Some sessionA2"
proof -
  have bound: "claudeAccountId boundClaudeKey = ''A1''"
    by (simp add: boundClaudeKey_def)
  have found: "claude_getAccount claude_store ''A1'' = Inr (Some claudeA1)"
    by (simp add: claude_getAccount_def call_def findAccount_def claude_store_def claudeA1_def)
  have active: "isActive claudeA1 = JStr ''true'' \<and> status claudeA1 \<noteq> ''error''"
    by (simp add: claudeA1_def poolAccount_def)
  have kept: "redis claude_store (CLAUDE_SESSION_MAPPING_PREFIX @ ''h1'') = Some sessionA2"
    by (simp add: claude_store_def)
  from dedicated_binding_leaves_session_mapping
         [of boundClaudeKey claude_store claudeA1 sample_env 1735689600000 "''h1''"
             "''claude-3-5-sonnet-20241022''"]
       bound found active kept
  show ?thesis by simp
qed

section \<open>Validation of API keys\<close>

text \<open>
  C8, as the code has it. For a key that is found: a key whose \<open>isActive\<close> is not
  \<open>'true'\<close> is rejected as disabled, whatever its expiry; an active key with a non-empty
  \<open>expiresAt\<close> is rejected as expired exactly when \<open>expiresAt\<close> is a date strictly before
  the current time; and an active key whose \<open>expiresAt\<close> is the current instant or later
  is accepted, with its own \<open>keyData\<close>, when the reads of its usage and of its daily cost
  succeed.
\<close>

theorem validateApiKey_disabled_then_expired:
  assumes "apiKey \<noteq> []" and "startsWith apiKey (apiKeyPrefix E)"
    and "findApiKeyByHash s (hashApiKey E apiKey) = Inr (Some keyData)"
  shows "(field keyData ''isActive'' \<noteq> ''true'' \<longrightarrow>
            validateApiKey E c apiKey s = Invalid KeyDisabled) \<and>
         (field keyData ''isActive'' = ''true'' \<and> field keyData ''expiresAt'' \<noteq> [] \<longrightarrow>
            (validateApiKey E c apiKey s = Invalid KeyExpired \<longleftrightarrow>
               (\<exists>t. dateParse E (field keyData ''expiresAt'') = Some t \<and> t < clock_ms c))) \<and>
         (field keyData ''isActive'' = ''true'' \<and> field keyData ''expiresAt'' \<noteq> [] \<and>
          (\<exists>t. dateParse E (field keyData ''expiresAt'') = Some t \<and> clock_ms c \<le> t) \<and>
          \<not> key_failing s (GetUsageStats (field keyData ''id'')) \<and>
          \<not> key_failing s (GetDailyCost (field keyData ''id'')) \<longrightarrow>
            validateApiKey E c apiKey s =
              Valid (validatedKeyData E keyData (counters s (KeyTotal (field keyData ''id'')))
                       (dailyCost s (field keyData ''id'', clock_day c))))"
proof -
  have disabled: "field keyData ''isActive'' \<noteq> ''true'' \<longrightarrow>
            validateApiKey E c apiKey s = Invalid KeyDisabled"
    using assms by (simp add: validateApiKey_def)
  have expired: "field keyData ''isActive'' = ''true'' \<and> field keyData ''expiresAt'' \<noteq> [] \<longrightarrow>
            (validateApiKey E c apiKey s = Invalid KeyExpired \<longleftrightarrow>
               (\<exists>t. dateParse E (field keyData ''expiresAt'') = Some t \<and> t < clock_ms c))"
    using assms
    by (auto simp: validateApiKey_def hasExpired_def split: sum.splits option.splits)
  have accepted: "field keyData ''isActive'' = ''true'' \<and> field keyData ''expiresAt'' \<noteq> [] \<and>
          (\<exists>t. dateParse E (field keyData ''expiresAt'') = Some t \<and> clock_ms c \<le> t) \<and>
          \<not> key_failing s (GetUsageStats (field keyData ''id'')) \<and>
          \<not> key_failing s (GetDailyCost (field keyData ''id'')) \<longrightarrow>
            validateApiKey E c apiKey s =
              Valid (validatedKeyData E keyData (counters s (KeyTotal (field keyData ''id'')))
                       (dailyCost s (field keyData ''id'', clock_day c)))"
    using assms
    by (auto simp: validateApiKey_def hasExpired_def getUsageStats_def getDailyCost_def kcall_def)
  from disabled expired accepted show ?thesis by blast
qed

lemma find_sample_key:
  "findApiKeyByHash key_store1 (hashApiKey sample_env ''cr_secret'') = Inr (Some sampleKeyData)"
  by (simp add: findApiKeyByHash_def kcall_def hashApiKey_def sample_env_def key_store1_def
        empty_key_store_def sampleKeyData_def)

lemma find_disabled_key:
  "findApiKeyByHash disabled_store (hashApiKey sample_env ''cr_secret'') =
     Inr (Some (AList.update ''isActive'' ''false'' sampleKeyData))"
  by (simp add: findApiKeyByHash_def kcall_def hashApiKey_def sample_env_def disabled_store_def
        key_store1_def empty_key_store_def sampleKeyData_def)

text \<open>One millisecond after \<open>expiresAt\<close> the key is expired; the disabled key, expired
  as well, is rejected as disabled; at the instant of \<open>expiresAt\<close> the key is accepted.\<close>

theorem validateApiKey_disabled_then_expired_witness:
  "validateApiKey sample_env late_clock ''cr_secret'' key_store1 = Invalid KeyExpired \<and>
   validateApiKey sample_env late_clock ''cr_secret'' disabled_store = Invalid KeyDisabled \<and>
   validateApiKey sample_env sample_clock ''cr_secret'' key_store1 =
     Valid (validatedKeyData sample_env sampleKeyData zeroUsage 0)"
proof -
  have a: "''cr_secret'' \<noteq> []" by simp
  have b: "startsWith ''cr_secret'' (apiKeyPrefix sample_env)"
    by (simp add: startsWith_def sample_env_def)
  have expired: "validateApiKey sample_env late_clock ''cr_secret'' key_store1 = Invalid KeyExpired"
    using validateApiKey_disabled_then_expired [OF a b find_sample_key, of late_clock]
    by (simp add: field_def sampleKeyData_def sample_env_def late_clock_def)
  have disabled:
    "validateApiKey sample_env late_clock ''cr_secret'' disabled_store = Invalid KeyDisabled"
    using validateApiKey_disabled_then_expired [OF a b find_disabled_key, of late_clock]
    by (simp add: field_def sampleKeyData_def)
  have accepted:
    "validateApiKey sample_env sample_clock ''cr_secret'' key_store1 =
       Valid (validatedKeyData sample_env sampleKeyData zeroUsage 0)"
    using validateApiKey_disabled_then_expired [OF a b find_sample_key, of sample_clock]
    by (simp add: field_def sampleKeyData_def sample_env_def sample_clock_def key_store1_def
          empty_key_store_def)
  from expired disabled accepted show ?thesis by simp
qed

text \<open>
  C8 as stated fails at the boundary: a key whose \<open>expiresAt\<close> is the current instant is
  not rejected; the comparison is \<open>new Date() > new Date(expiresAt)\<close>.
\<close>

theorem validateApiKey_accepts_at_expiry_instant:
  "dateParse sample_env (field sampleKeyData ''expiresAt'') = Some (clock_ms sample_clock) \<and>
   validateApiKey sample_env sample_clock ''cr_secret'' key_store1 =
     Valid (validatedKeyData sample_env sampleKeyData zeroUsage 0)"
  by (simp add: validateApiKey_def hasExpired_def startsWith_def hashApiKey_def
        findApiKeyByHash_def kcall_def getUsageStats_def getDailyCost_def field_def
        sample_env_def sample_clock_def key_store1_def empty_key_store_def sampleKeyData_def)

section \<open>Generate, then validate\<close>

lemma generateSecretKey_nonempty: "bytes \<noteq> [] \<Longrightarrow> generateSecretKey bytes \<noteq> []"
  by (cases bytes) (simp_all add: generateSecretKey_def)

lemma startsWith_append: "startsWith (p @ rest) p"
  by (simp add: startsWith_def)

lemma field_newKeyData:
  "field (newKeyData E c keyId h options) ''id'' = keyId"
  "field (newKeyData E c keyId h options) ''isActive'' =
     js_String (optionOr options ''isActive'' (JBool True))"
  "field (newKeyData E c keyId h options) ''expiresAt'' =
     orEmpty (optionOr options ''expiresAt'' JNull)"
  by (simp_all add: field_def newKeyData_def)

lemma newKeyData_nonempty: "newKeyData E c keyId h options \<noteq> []"
  by (simp add: newKeyData_def)

lemma generate_result:
  assumes "generateApiKey E c randomBytes uuid options s = Inr (g, s')"
  shows "gen_id g = uuid"
    and "gen_apiKey g = apiKeyPrefix E @ generateSecretKey randomBytes"
    and "gen_isActive g = (js_String (optionOr options ''isActive'' (JBool True)) = ''true'')"
    and "gen_expiresAt g = orEmpty (optionOr options ''expiresAt'' JNull)"
    and "key_failing s' = key_failing s"
    and "counters s' = counters s"
    and "findApiKeyByHash s' (hashApiKey E (gen_apiKey g)) =
           kcall s (FindApiKeyByHash (hashApiKey E (gen_apiKey g)))
             (Some (newKeyData E c uuid (hashApiKey E (gen_apiKey g)) options))"
  using assms
  by (auto simp: generateApiKey_def setApiKey_def kcall_def Let_def findApiKeyByHash_def
        field_newKeyData newKeyData_nonempty split: if_splits)

lemma generate_succeeds:
  "\<not> key_failing s (SetApiKey uuid) \<Longrightarrow>
   \<exists>g s'. generateApiKey E c randomBytes uuid options s = Inr (g, s')"
  by (simp add: generateApiKey_def setApiKey_def kcall_def Let_def)

text \<open>A key generated inactive is found by its hash and rejected as disabled.\<close>

lemma generate_inactive_then_validate:
  assumes gen: "generateApiKey E c randomBytes uuid options s = Inr (g, s')"
    and bytes: "randomBytes \<noteq> []"
    and inactive: "\<not> gen_isActive g"
    and reads: "\<not> key_failing s (FindApiKeyByHash (hashApiKey E (gen_apiKey g)))"
  shows "validateApiKey E c' (gen_apiKey g) s' = Invalid KeyDisabled"
proof -
  note r = generate_result [OF gen]
  let ?kd = "newKeyData E c uuid (hashApiKey E (gen_apiKey g)) options"
  have ne: "gen_apiKey g \<noteq> []" using r(2) bytes by (simp add: generateSecretKey_nonempty)
  have sw: "startsWith (gen_apiKey g) (apiKeyPrefix E)" using r(2) by (simp add: startsWith_append)
  have found: "findApiKeyByHash s' (hashApiKey E (gen_apiKey g)) = Inr (Some ?kd)"
    using r(7) reads(1) by (simp add: kcall_def)
  have act: "field ?kd ''isActive'' \<noteq> ''true''" using r(3) inactive by (simp add: field_newKeyData)
  show ?thesis using ne sw found act by (simp add: validateApiKey_def)
qed

text \<open>
  C9, as the code has it. A key generated active (the \<open>isActive\<close> option left out or
  true), from the 32 bytes of a secret, validates at any time that is not past its
  \<open>expiresAt\<close>, when the reads of the validation do not fail; the validated \<open>keyData\<close>
  carries the id that \<open>generateApiKey\<close> returned. The record is reached through the hash
  index that \<open>generateApiKey\<close> wrote.
\<close>

theorem generate_then_validate:
  assumes gen: "generateApiKey E c randomBytes uuid options s = Inr (g, s')"
    and bytes: "length randomBytes = 32"
    and active: "gen_isActive g"
    and fresh: "gen_expiresAt g = [] \<or>
                (\<forall>t. dateParse E (gen_expiresAt g) = Some t \<longrightarrow> clock_ms c' \<le> t)"
    and reads: "\<not> key_failing s (FindApiKeyByHash (hashApiKey E (gen_apiKey g)))"
               "\<not> key_failing s (GetUsageStats uuid)" "\<not> key_failing s (GetDailyCost uuid)"
  shows "\<exists>v. validateApiKey E c' (gen_apiKey g) s' = Valid v \<and> v_id v = gen_id g"
proof -
  note r = generate_result [OF gen]
  let ?kd = "newKeyData E c uuid (hashApiKey E (gen_apiKey g)) options"
  let ?v = "validatedKeyData E ?kd (counters s' (KeyTotal uuid)) (dailyCost s' (uuid, clock_day c'))"
  from bytes have "randomBytes \<noteq> []" by auto
  then have ne: "gen_apiKey g \<noteq> []" using r(2) by (simp add: generateSecretKey_nonempty)
  have sw: "startsWith (gen_apiKey g) (apiKeyPrefix E)" using r(2) by (simp add: startsWith_append)
  have found: "findApiKeyByHash s' (hashApiKey E (gen_apiKey g)) = Inr (Some ?kd)"
    using r(7) reads(1) by (simp add: kcall_def)
  have act: "field ?kd ''isActive'' = ''true''" using r(3) active by (simp add: field_newKeyData)
  have notexp: "\<not> hasExpired E c' ?kd"
    using r(4) fresh by (auto simp: hasExpired_def field_newKeyData split: option.splits)
  have idf: "field ?kd ''id'' = uuid" by (simp add: field_newKeyData)
  have u: "getUsageStats s' uuid = Inr (counters s' (KeyTotal uuid))"
    using r(5) reads(2) by (simp add: getUsageStats_def kcall_def)
  have d: "getDailyCost c' s' uuid = Inr (dailyCost s' (uuid, clock_day c'))"
    using r(5) reads(3) by (simp add: getDailyCost_def kcall_def)
  have "validateApiKey E c' (gen_apiKey g) s' = Valid ?v"
    using ne sw found act notexp idf u d by (simp add: validateApiKey_def)
  moreover have "v_id ?v = gen_id g"
    using r(1) idf by (simp add: validatedKeyData_def)
  ultimately show ?thesis by blast
qed

theorem generate_then_validate_witness:
  "(case generateThenValidate sample_env sample_clock sample_clock bytes32 ''k2'' []
           empty_key_store of
      Inl e \<Rightarrow> False
    | Inr (i, r) \<Rightarrow> (case r of Valid v \<Rightarrow> v_id v = i \<and> i = ''k2'' | Invalid e \<Rightarrow> False))"
proof -
  have nf: "\<And>call. \<not> key_failing empty_key_store call" by (simp add: empty_key_store_def)
  from generate_succeeds [OF nf] obtain g s' where
    gen: "generateApiKey sample_env sample_clock bytes32 ''k2'' [] empty_key_store = Inr (g, s')"
    by blast
  have len: "length bytes32 = 32" by (simp add: bytes32_def)
  have act: "gen_isActive g" using generate_result(3) [OF gen] by (simp add: optionOr_def)
  have fresh: "gen_expiresAt g = [] \<or>
      (\<forall>t. dateParse sample_env (gen_expiresAt g) = Some t \<longrightarrow> clock_ms sample_clock \<le> t)"
    using generate_result(4) [OF gen] by (simp add: optionOr_def orEmpty_def)
  from generate_then_validate [OF gen len act fresh nf nf nf] generate_result(1) [OF gen] gen
  show ?thesis by (auto simp: generateThenValidate_def)
qed

text \<open>
  C9 as stated fails for a key generated with \<open>isActive: false\<close>, an option
  \<open>generateApiKey\<close> takes: the secret it returns is rejected as disabled.
\<close>

theorem generated_inactive_key_is_rejected:
  "generateThenValidate sample_env sample_clock sample_clock bytes32 ''k2''
     [(''isActive'', JBool False)] empty_key_store = Inr (''k2'', Invalid KeyDisabled)"
proof -
  have nf: "\<And>call. \<not> key_failing empty_key_store call" by (simp add: empty_key_store_def)
  from generate_succeeds [OF nf] obtain g s' where
    gen: "generateApiKey sample_env sample_clock bytes32 ''k2'' [(''isActive'', JBool False)]
            empty_key_store = Inr (g, s')" by blast
  have ne: "bytes32 \<noteq> []" by (simp add: bytes32_def)
  have inact: "\<not> gen_isActive g"
    using generate_result(3) [OF gen] by (simp add: optionOr_def)
  have "validateApiKey sample_env sample_clock (gen_apiKey g) s' = Invalid KeyDisabled"
    using gen ne inact nf by (rule generate_inactive_then_validate)
  with gen generate_result(1) [OF gen] show ?thesis
    by (simp add: generateThenValidate_def)
qed

section \<open>Admin updates\<close>

lemma applyUpdate_map_of:
  "f \<notin> set allowedUpdates \<Longrightarrow> map_of (applyUpdate E d fv) f = map_of d f"
  by (cases fv) (auto simp: applyUpdate_def update_conv')

lemma foldl_applyUpdate_map_of:
  "f \<notin> set allowedUpdates \<Longrightarrow> map_of (foldl (applyUpdate E) d us) f = map_of d f"
  by (induction us arbitrary: d) (simp_all add: applyUpdate_map_of)

lemma updatedKeyData_map_of:
  "protectedField f \<Longrightarrow> map_of (updatedKeyData E c d us) f = map_of d f"
  by (simp add: protectedField_def updatedKeyData_def update_conv' foldl_applyUpdate_map_of)

lemma updatedKeyData_nonempty: "updatedKeyData E c d us \<noteq> []"
  by (simp add: updatedKeyData_def)

text \<open>An update either leaves the store as it was or replaces the record of its key by
  the updated record.\<close>

lemma updateApiKey_cases:
  "snd (updateApiKey E c keyId us s) = s \<or>
   (\<exists>d. apikeys s keyId = Some d \<and> d \<noteq> [] \<and>
        snd (updateApiKey E c keyId us s) =
          s\<lparr>apikeys := (apikeys s)(keyId \<mapsto> updatedKeyData E c d us)\<rparr>)"
  by (auto simp: updateApiKey_def tryCatch_def updateApiKey_body_def getApiKey_def setApiKey_def
        kcall_def split: option.splits)

lemma sameIdentity_refl: "sameIdentity s s"
  by (auto simp: sameIdentity_def split: option.splits)

lemma sameIdentity_record:
  assumes "sameIdentity s s'" and "apikeys s k = Some d"
  shows "\<exists>d'. apikeys s' k = Some d' \<and> (d' = [] \<longleftrightarrow> d = []) \<and>
              (\<forall>f. protectedField f \<longrightarrow> map_of d' f = map_of d f)"
proof -
  from assms(1) have "case apikeys s k of
              None \<Rightarrow> apikeys s' k = None
            | Some d \<Rightarrow> (\<exists>d'. apikeys s' k = Some d' \<and> (d' = [] \<longleftrightarrow> d = []) \<and>
                          (\<forall>f. protectedField f \<longrightarrow> map_of d' f = map_of d f))"
    unfolding sameIdentity_def by blast
  with assms(2) show ?thesis by simp
qed

lemma sameIdentity_no_record:
  assumes "sameIdentity s s'" and "apikeys s k = None"
  shows "apikeys s' k = None"
proof -
  from assms(1) have "case apikeys s k of
              None \<Rightarrow> apikeys s' k = None
            | Some d \<Rightarrow> (\<exists>d'. apikeys s' k = Some d' \<and> (d' = [] \<longleftrightarrow> d = []) \<and>
                          (\<forall>f. protectedField f \<longrightarrow> map_of d' f = map_of d f))"
    unfolding sameIdentity_def by blast
  with assms(2) show ?thesis by simp
qed

lemma sameIdentity_trans:
  assumes "sameIdentity s s'" and "sameIdentity s' s''"
  shows "sameIdentity s s''"
proof -
  have h: "hash_map s'' = hash_map s" "key_failing s'' = key_failing s"
    using assms by (simp_all add: sameIdentity_def)
  have r: "case apikeys s k of
              None \<Rightarrow> apikeys s'' k = None
            | Some d \<Rightarrow> (\<exists>d'. apikeys s'' k = Some d' \<and> (d' = [] \<longleftrightarrow> d = []) \<and>
                          (\<forall>f. protectedField f \<longrightarrow> map_of d' f = map_of d f))" for k
  proof (cases "apikeys s k")
    case None
    then have "apikeys s' k = None" using assms(1) by (rule sameIdentity_no_record [rotated])
    then have "apikeys s'' k = None" using assms(2) by (rule sameIdentity_no_record [rotated])
    with None show ?thesis by simp
  next
    case (Some d)
    from sameIdentity_record [OF assms(1) Some] obtain d' where
      d': "apikeys s' k = Some d'" "d' = [] \<longleftrightarrow> d = []"
          "\<forall>f. protectedField f \<longrightarrow> map_of d' f = map_of d f" by blast
    from sameIdentity_record [OF assms(2) d'(1)] obtain d'' where
      d'': "apikeys s'' k = Some d''" "d'' = [] \<longleftrightarrow> d' = []"
           "\<forall>f. protectedField f \<longrightarrow> map_of d'' f = map_of d' f" by blast
    from d' d'' Some show ?thesis by simp
  qed
  from h r show ?thesis unfolding sameIdentity_def by blast
qed

lemma updateApiKey_sameIdentity: "sameIdentity s (snd (updateApiKey E c keyId us s))"
  using updateApiKey_cases [of E c keyId us s]
  by (auto simp: sameIdentity_def updatedKeyData_nonempty updatedKeyData_map_of
           split: option.splits)

lemma applyUpdates_sameIdentity: "sameIdentity s (applyUpdates E us s)"
proof (induction us arbitrary: s)
  case Nil
  show ?case by (simp add: sameIdentity_refl)
next
  case (Cons u us)
  obtain c keyId upd where u: "u = (c, keyId, upd)" by (cases u) auto
  have "sameIdentity s (snd (updateApiKey E c keyId upd s))" by (rule updateApiKey_sameIdentity)
  moreover have "sameIdentity (snd (updateApiKey E c keyId upd s))
                   (applyUpdates E us (snd (updateApiKey E c keyId upd s)))" by (rule Cons.IH)
  ultimately show ?case unfolding u by (simp add: sameIdentity_trans)
qed

lemma sameIdentity_storedField:
  assumes "sameIdentity s s'" and "protectedField f"
  shows "storedField s' k f = storedField s k f"
proof (cases "apikeys s k")
  case None
  with sameIdentity_no_record [OF assms(1) None] show ?thesis by (simp add: storedField_def)
next
  case (Some d)
  from sameIdentity_record [OF assms(1) Some] assms(2) Some show ?thesis
    by (auto simp: storedField_def)
qed

lemma sameIdentity_find:
  assumes "sameIdentity s s'" and "findApiKeyByHash s h = Inr (Some d)"
  shows "\<exists>d'. findApiKeyByHash s' h = Inr (Some d') \<and>
              (\<forall>f. protectedField f \<longrightarrow> field d' f = field d f)"
proof -
  from assms(2) obtain k where k: "hash_map s h = Some k" "apikeys s k = Some d" "d \<noteq> []"
    and nf: "\<not> key_failing s (FindApiKeyByHash h)"
    by (auto simp: findApiKeyByHash_def kcall_def split: option.splits if_splits)
  from sameIdentity_record [OF assms(1) k(2)] k(3) obtain d' where
    d': "apikeys s' k = Some d'" "d' \<noteq> []"
        "\<forall>f. protectedField f \<longrightarrow> map_of d' f = map_of d f" by blast
  from assms(1) have "hash_map s' = hash_map s" "key_failing s' = key_failing s"
    by (simp_all add: sameIdentity_def)
  with k nf d' have "findApiKeyByHash s' h = Inr (Some d')"
    by (simp add: findApiKeyByHash_def kcall_def)
  moreover have "\<forall>f. protectedField f \<longrightarrow> field d' f = field d f"
    using d'(3) by (simp add: field_def)
  ultimately show ?thesis by blast
qed

lemma protected_fields:
  "protectedField ''id''" "protectedField ''apiKey''" "protectedField ''createdAt''"
  by (simp_all add: protectedField_def allowedUpdates_def)

text \<open>
  C10, as the code has it. After any sequence of admin updates the hash index is what it
  was, every field of every stored record that is neither in the allow-list nor
  \<open>updatedAt\<close> is what it was, and a hash that resolved to a record still resolves to a
  record with the same \<open>id\<close>, the same \<open>apiKey\<close> hash and the same \<open>createdAt\<close>.
\<close>

theorem updates_keep_identity:
  "hash_map (applyUpdates E us s) = hash_map s \<and>
   (\<forall>k f. protectedField f \<longrightarrow>
      storedField (applyUpdates E us s) k f = storedField s k f) \<and>
   (\<forall>h d. findApiKeyByHash s h = Inr (Some d) \<longrightarrow>
      (\<exists>d'. findApiKeyByHash (applyUpdates E us s) h = Inr (Some d') \<and>
            field d' ''id'' = field d ''id'' \<and> field d' ''apiKey'' = field d ''apiKey'' \<and>
            field d' ''createdAt'' = field d ''createdAt''))"
proof -
  have si: "sameIdentity s (applyUpdates E us s)" by (rule applyUpdates_sameIdentity)
  then have a: "hash_map (applyUpdates E us s) = hash_map s" by (simp add: sameIdentity_def)
  have b: "\<forall>k f. protectedField f \<longrightarrow>
      storedField (applyUpdates E us s) k f = storedField s k f"
    using si by (simp add: sameIdentity_storedField)
  have c: "\<forall>h d. findApiKeyByHash s h = Inr (Some d) \<longrightarrow>
      (\<exists>d'. findApiKeyByHash (applyUpdates E us s) h = Inr (Some d') \<and>
            field d' ''id'' = field d ''id'' \<and> field d' ''apiKey'' = field d ''apiKey'' \<and>
            field d' ''createdAt'' = field d ''createdAt'')"
  proof (intro allI impI)
    fix h d assume "findApiKeyByHash s h = Inr (Some d)"
    from sameIdentity_find [OF si this] protected_fields
    show "\<exists>d'. findApiKeyByHash (applyUpdates E us s) h = Inr (Some d') \<and>
            field d' ''id'' = field d ''id'' \<and> field d' ''apiKey'' = field d ''apiKey'' \<and>
            field d' ''createdAt'' = field d ''createdAt''" by blast
  qed
  from a b c show ?thesis by blast
qed

text \<open>The update of \<open>sampleUpdates\<close> disables \<open>k1\<close>; its attempts on \<open>apiKey\<close> and
  \<open>id\<close> change nothing.\<close>

theorem updates_keep_identity_witness:
  "hash_map (applyUpdates sample_env sampleUpdates key_store1) = hash_map key_store1 \<and>
   storedField (applyUpdates sample_env sampleUpdates key_store1) ''k1'' ''apiKey'' =
     Some ''digest:cr_secretpepper'' \<and>
   storedField (applyUpdates sample_env sampleUpdates key_store1) ''k1'' ''id'' = Some ''k1'' \<and>
   storedField (applyUpdates sample_env sampleUpdates key_store1) ''k1'' ''isActive'' =
     Some ''false''"
proof -
  have before: "storedField key_store1 ''k1'' ''apiKey'' = Some ''digest:cr_secretpepper''"
               "storedField key_store1 ''k1'' ''id'' = Some ''k1''"
    by (simp_all add: storedField_def key_store1_def empty_key_store_def sampleKeyData_def)
  have changed:
    "storedField (applyUpdates sample_env sampleUpdates key_store1) ''k1'' ''isActive'' =
       Some ''false''"
    by (simp add: sampleUpdates_def storedField_def updateApiKey_def tryCatch_def
          updateApiKey_body_def getApiKey_def setApiKey_def kcall_def updatedKeyData_def
          applyUpdate_def allowedUpdates_def update_conv' key_store1_def empty_key_store_def
          sampleKeyData_def)
  from updates_keep_identity [of sample_env sampleUpdates key_store1] protected_fields
       before changed
  show ?thesis by simp
qed

text \<open>
  C10 as stated fails for \<open>updatedAt\<close>, which is not in the allow-list and is written by
  every update, also by one with no fields.
\<close>

theorem updateApiKey_writes_updatedAt:
  "''updatedAt'' \<notin> set allowedUpdates \<and>
   storedField key_store1 ''k1'' ''updatedAt'' = None \<and>
   storedField (snd (updateApiKey sample_env sample_clock ''k1'' [] key_store1)) ''k1''
     ''updatedAt'' = Some ''2025-01-01T00:00:00.000Z''"
  by (simp add: allowedUpdates_def storedField_def updateApiKey_def tryCatch_def
        updateApiKey_body_def getApiKey_def setApiKey_def kcall_def updatedKeyData_def
        key_store1_def empty_key_store_def sampleKeyData_def sample_clock_def)

section \<open>Usage recording\<close>

lemma in_keyCounters_not_account:
  "k \<in> set (keyCounters c keyId model) \<Longrightarrow> k \<notin> set (accountCounters c' a)"
  by (auto simp: keyCounters_def accountCounters_def)

lemma accountCounters_disjoint:
  "k \<in> set (accountCounters c a) \<Longrightarrow> k \<in> set (accountCounters c a') \<Longrightarrow> a' = a"
  by (auto simp: accountCounters_def)

lemma recordUsage_counters:
  assumes ok: "\<And>call. \<not> key_failing s call"
    and cost: "calculateCost E i out cc cr model = Some costTotal"
  shows "counters (snd (recordUsage E c keyId i out cc cr model accId s)) =
           (if recordExists s keyId \<and> accId \<noteq> []
            then bumpCounters (bumpCounters (counters s) (keyCounters c keyId model)
                    (i + out + cc + cr) i out cc cr) (accountCounters c accId)
                    (i + out + cc + cr) i out cc cr
            else bumpCounters (counters s) (keyCounters c keyId model)
                    (i + out + cc + cr) i out cc cr)"
  using ok cost
  by (auto simp: recordUsage_def tryCatch_def recordUsage_body_def incrementTokenUsage_def
        incrementDailyCost_def incrementAccountUsage_def getApiKey_def setApiKey_def kcall_def
        recordExists_def Let_def
      split: option.splits)

text \<open>
  What \<open>recordUsage\<close> does to the counters when no store call fails and the cost
  calculation returns: every per-key counter (lifetime, daily, monthly, and the two
  per-model ones) grows by exactly the recorded counts, and the counters of an account grow
  by the same amounts when that account's id was passed and the key has a record in the
  store. All other account counters stay as they were.
\<close>

lemma recordUsage_counts:
  assumes ok: "\<forall>call. \<not> key_failing s call"
    and cost: "calculateCost E i out cc cr model \<noteq> None"
  shows "(\<forall>k\<in>set (keyCounters c keyId model).
            counters (snd (recordUsage E c keyId i out cc cr model accId s)) k =
              addUsage (counters s k) (i + out + cc + cr) i out cc cr) \<and>
         (\<forall>a. \<forall>k\<in>set (accountCounters c a).
            counters (snd (recordUsage E c keyId i out cc cr model accId s)) k =
              (if a = accId \<and> accId \<noteq> [] \<and> recordExists s keyId
               then addUsage (counters s k) (i + out + cc + cr) i out cc cr
               else counters s k))"
proof -
  from cost obtain costTotal where c: "calculateCost E i out cc cr model = Some costTotal"
    by auto
  have eq: "counters (snd (recordUsage E c keyId i out cc cr model accId s)) =
           (if recordExists s keyId \<and> accId \<noteq> []
            then bumpCounters (bumpCounters (counters s) (keyCounters c keyId model)
                    (i + out + cc + cr) i out cc cr) (accountCounters c accId)
                    (i + out + cc + cr) i out cc cr
            else bumpCounters (counters s) (keyCounters c keyId model)
                    (i + out + cc + cr) i out cc cr)"
    using ok c by (intro recordUsage_counters) auto
  show ?thesis
    unfolding eq
    by (auto simp: bumpCounters_def dest: in_keyCounters_not_account accountCounters_disjoint)
qed

text \<open>For the key \<open>k1\<close>, which has a record: 150 tokens on the key and on the account
  \<open>acc1\<close> when it is passed, nothing on the account when no account id is passed.\<close>

lemma recordUsage_counts_example:
  "allTokens (counters (snd (recordUsage sample_env sample_clock ''k1'' 100 50 0 0 ''m'' ''acc1''
       key_store1)) (KeyTotal ''k1'')) = 150 \<and>
   allTokens (counters (snd (recordUsage sample_env sample_clock ''k1'' 100 50 0 0 ''m'' ''acc1''
       key_store1)) (AccountTotal ''acc1'')) = 150 \<and>
   allTokens (counters (snd (recordUsage sample_env sample_clock ''k1'' 100 50 0 0 ''m'' []
       key_store1)) (AccountTotal ''acc1'')) = 0"
proof -
  have ok: "\<forall>call. \<not> key_failing key_store1 call"
    by (simp add: key_store1_def empty_key_store_def)
  have cost: "calculateCost sample_env 100 50 0 0 ''m'' \<noteq> None"
    by (simp add: sample_env_def)
  have ex: "recordExists key_store1 ''k1''"
    by (simp add: recordExists_def key_store1_def empty_key_store_def sampleKeyData_def)
  have zero: "counters key_store1 = (\<lambda>k. zeroUsage)"
    by (simp add: key_store1_def empty_key_store_def)
  have inK: "KeyTotal ''k1'' \<in> set (keyCounters sample_clock ''k1'' ''m'')"
    by (simp add: keyCounters_def)
  have inA: "AccountTotal ''acc1'' \<in> set (accountCounters sample_clock ''acc1'')"
    by (simp add: accountCounters_def)
  from recordUsage_counts [OF ok cost, of sample_clock "''k1''" "''acc1''"] inK inA ex zero
  have with_account:
    "allTokens (counters (snd (recordUsage sample_env sample_clock ''k1'' 100 50 0 0 ''m''
        ''acc1'' key_store1)) (KeyTotal ''k1'')) = 150 \<and>
     allTokens (counters (snd (recordUsage sample_env sample_clock ''k1'' 100 50 0 0 ''m''
        ''acc1'' key_store1)) (AccountTotal ''acc1'')) = 150"
    by (auto simp: addUsage_def zeroUsage_def)
  from recordUsage_counts [OF ok cost, of sample_clock "''k1''" "[]"] inA zero
  have without_account:
    "allTokens (counters (snd (recordUsage sample_env sample_clock ''k1'' 100 50 0 0 ''m'' []
        key_store1)) (AccountTotal ''acc1'')) = 0"
    by (auto simp: zeroUsage_def)
  from with_account without_account show ?thesis by simp
qed

text \<open>
  C6, evaluated on the code. The key \<open>k9\<close> has no record in the store (deleted while the
  request was in flight, say) and the account id \<open>acc1\<close> is passed: the call completes,
  the key's counters grow by the 150 tokens, and the account's counters do not move. The
  source tests \<open>if (accountId)\<close> for the account statistics and logs a missing
  \<open>accountId\<close> as the reason for skipping them, but that test sits inside the test of the
  key's record, which is there for \<open>lastUsedAt\<close>; the usage of the account that served
  the request is dropped.
\<close>

theorem recordUsage_skips_account_without_key_record:
  "fst (recordUsage sample_env sample_clock ''k9'' 100 50 0 0 ''m'' ''acc1'' key_store1) =
     Inr Recorded \<and>
   allTokens (counters (snd (recordUsage sample_env sample_clock ''k9'' 100 50 0 0 ''m'' ''acc1''
       key_store1)) (KeyTotal ''k9'')) = 150 \<and>
   allTokens (counters (snd (recordUsage sample_env sample_clock ''k9'' 100 50 0 0 ''m'' ''acc1''
       key_store1)) (AccountTotal ''acc1'')) = 0"
  by (simp add: recordUsage_def tryCatch_def recordUsage_body_def incrementTokenUsage_def
        incrementDailyCost_def incrementAccountUsage_def getApiKey_def setApiKey_def kcall_def
        bumpCounters_def keyCounters_def accountCounters_def addUsage_def zeroUsage_def
        sample_env_def sample_clock_def key_store1_def empty_key_store_def)

text \<open>
  C7. \<open>recordUsage\<close> never hands an error to its caller: whatever the body throws (a
  failing store call, a failing cost calculation) is logged and the call returns
  normally, with what had been written before the failure left in the store.
\<close>

theorem recordUsage_swallows_errors:
  "fst (recordUsage E c keyId i out cc cr model accId s) =
     (case fst (recordUsage_body E c keyId i out cc cr model accId s) of
        Inl e \<Rightarrow> Inr (FailureLogged e)
      | Inr v \<Rightarrow> Inr v) \<and>
   (\<forall>e. fst (recordUsage E c keyId i out cc cr model accId s) \<noteq> Inl e)"
  by (auto simp: recordUsage_def tryCatch_def split: prod.splits sum.splits)

text \<open>With every store call failing, \<open>recordUsage\<close> returns and \<open>updateApiKey\<close>, which
  rethrows, does not.\<close>

theorem recordUsage_swallows_errors_witness:
  "fst (recordUsage sample_env sample_clock ''k1'' 100 50 0 0 ''m'' ''acc1'' broken_store) =
     Inr (FailureLogged (KeyStoreFailure (IncrementTokenUsage ''k1''))) \<and>
   fst (updateApiKey sample_env sample_clock ''k1'' [] broken_store) =
     Inl (KeyStoreFailure (GetApiKey ''k1''))"
proof -
  have body:
    "fst (recordUsage_body sample_env sample_clock ''k1'' 100 50 0 0 ''m'' ''acc1'' broken_store) =
       Inl (KeyStoreFailure (IncrementTokenUsage ''k1''))"
    by (simp add: recordUsage_body_def incrementTokenUsage_def kcall_def sample_env_def
          broken_store_def)
  have rethrown:
    "fst (updateApiKey sample_env sample_clock ''k1'' [] broken_store) =
       Inl (KeyStoreFailure (GetApiKey ''k1''))"
    by (simp add: updateApiKey_def tryCatch_def updateApiKey_body_def getApiKey_def kcall_def
          broken_store_def)
  from recordUsage_swallows_errors
         [of sample_env sample_clock "''k1''" 100 50 0 0 "''m''" "''acc1''" broken_store]
       body rethrown
  show ?thesis by simp
qed

end
